theory Spec2Isabelle
  imports
    Complex_Main
    "HOL-Library.Char_ord"
    "HOL-Library.List_Lexorder"
    "HOL-Library.Multiset"
    "HOL-Library.Sublist"
begin

section \<open>LigandPlots: a shallow embedding of the pipeline glue\<close>

text \<open>
  The repository drives GROMACS through a container (\<^verbatim>\<open>gromacs.py\<close>), reads the
  \<^verbatim>\<open>.xvg\<close> tables it writes (\<^verbatim>\<open>helpers.py\<close>), renders charts
  (\<^verbatim>\<open>plots.py\<close>) and sequences all of it (\<^verbatim>\<open>main.py\<close>).

  Conventions of the model.
  \<^item> A Python \<^verbatim>\<open>str\<close> is a \<^typ>\<open>string\<close>; a \<^typ>\<open>char\<close> stands for a code
    point below 256. \<^verbatim>\<open>bytes\<close> are strings too.
  \<^item> A \<^verbatim>\<open>pathlib.Path\<close> (POSIX flavour) is represented by the string
    \<^verbatim>\<open>str(p)\<close>; \<^verbatim>\<open>Path(p)\<close> applied to a \<^verbatim>\<open>Path\<close> is the identity.
  \<^item> An exception is a value \<open>Inl e\<close> of the result; the first one raised ends the
    operation, since the repository has no \<^verbatim>\<open>try\<close>.
  \<^item> Everything outside the repository (Docker, the file system, tar archives, the
    builtin \<^verbatim>\<open>float\<close>, the rendering of a figure) is a field of the record \<open>env\<close>, a
    parameter of every operation; the calls made to Docker, to the file system and to
    matplotlib are appended to a trace, in the order in which the code makes them.
  \<^item> \<^verbatim>\<open>logging\<close> calls only write diagnostics and are not part of the trace.
\<close>

subsection \<open>Errors\<close>

datatype py_error =
    IndexError
  | ValueError
  | OSError
  | UnicodeDecodeError
  | TarError
  | DockerError

text \<open>A call returned: it did not raise.\<close>

definition returned :: "py_error + 'a \<Rightarrow> bool" where
  "returned r = (case r of Inl _ \<Rightarrow> False | Inr _ \<Rightarrow> True)"

subsection \<open>Strings\<close>

text \<open>\<^verbatim>\<open>str.isspace\<close> on one code point below 256; the same set is \<^verbatim>\<open>\s\<close> of \<^verbatim>\<open>re\<close>.\<close>

definition py_isspace :: "char \<Rightarrow> bool" where
  "py_isspace c = (of_char c \<in> {9, 10, 11, 12, 13, 28, 29, 30, 31, 32, 133, 160 :: nat})"

text \<open>\<^verbatim>\<open>\d\<close> of \<^verbatim>\<open>re\<close> on one code point below 256: the decimal digits.\<close>

definition py_isdigit :: "char \<Rightarrow> bool" where
  "py_isdigit c = (48 \<le> (of_char c :: nat) \<and> (of_char c :: nat) \<le> 57)"

text \<open>Splitting at every character that satisfies \<open>P\<close>; empty fields are kept.\<close>

fun split_when :: "(char \<Rightarrow> bool) \<Rightarrow> string \<Rightarrow> string list" where
  "split_when P [] = [[]]"
| "split_when P (c # cs) =
     (if P c then [] # split_when P cs
      else (case split_when P cs of
              [] \<Rightarrow> [[c]]
            | w # ws \<Rightarrow> (c # w) # ws))"

text \<open>\<^verbatim>\<open>s.split(sep)\<close> for a separator of one character.\<close>

definition split_sep :: "char \<Rightarrow> string \<Rightarrow> string list" where
  "split_sep sep s = split_when (\<lambda>c. c = sep) s"

text \<open>\<^verbatim>\<open>s.split()\<close>: runs of whitespace separate, no empty field is returned.
  \<^verbatim>\<open>s.strip().split()\<close> is the same list.\<close>

definition py_split :: "string \<Rightarrow> string list" where
  "py_split s = filter (\<lambda>w. w \<noteq> []) (split_when py_isspace s)"

text \<open>\<^verbatim>\<open>sep.join(xs)\<close>.\<close>

fun py_join :: "string \<Rightarrow> string list \<Rightarrow> string" where
  "py_join sep [] = []"
| "py_join sep [x] = x"
| "py_join sep (x # y # ys) = x @ sep @ py_join sep (y # ys)"

text \<open>\<^verbatim>\<open>s.startswith(p)\<close> and \<^verbatim>\<open>s.endswith(p)\<close>.\<close>

definition startswith :: "string \<Rightarrow> string \<Rightarrow> bool" where
  "startswith s p = (take (length p) s = p)"

definition endswith :: "string \<Rightarrow> string \<Rightarrow> bool" where
  "endswith s p = (length p \<le> length s \<and> drop (length s - length p) s = p)"

text \<open>\<^verbatim>\<open>xs[-1]\<close>.\<close>

definition py_last :: "'a list \<Rightarrow> py_error + 'a" where
  "py_last xs = (if xs = [] then Inl IndexError else Inr (last xs))"

text \<open>\<^verbatim>\<open>xs[0]\<close>.\<close>

definition py_first :: "'a list \<Rightarrow> py_error + 'a" where
  "py_first xs = (case xs of [] \<Rightarrow> Inl IndexError | x # _ \<Rightarrow> Inr x)"

text \<open>\<^verbatim>\<open>xs[i]\<close> for a literal index \<open>i \<ge> 0\<close>.\<close>

definition py_nth :: "'a list \<Rightarrow> nat \<Rightarrow> py_error + 'a" where
  "py_nth xs i = (if i < length xs then Inr (xs ! i) else Inl IndexError)"

subsection \<open>Paths\<close>

type_synonym path = string

text \<open>\<^verbatim>\<open>PurePosixPath._parts_normcase\<close>, the key by which two paths are compared:
  \<^verbatim>\<open>str(p).split('/')\<close>.\<close>

definition parts_normcase :: "path \<Rightarrow> string list" where
  "parts_normcase p = split_sep (CHR ''/'') p"

text \<open>\<^verbatim>\<open>p.name\<close>: the final component, empty for the root and for \<^verbatim>\<open>Path('.')\<close>.\<close>

definition path_name :: "path \<Rightarrow> string" where
  "path_name p = (if p = ''.'' then [] else last (parts_normcase p))"

text \<open>\<^verbatim>\<open>sorted(ps)\<close> on paths: Python compares two paths by their lists of
  components, each component by code points; \<open>sort_key\<close> is stable, as \<^verbatim>\<open>sorted\<close> is.\<close>

definition sorted_paths :: "path list \<Rightarrow> path list" where
  "sorted_paths ps = sort_key parts_normcase ps"

subsection \<open>helpers.py: file discovery\<close>

text \<open>
  \<^verbatim>\<open>find_files_with_same_pattern(path, pattern)\<close>. The first argument here is what
  \<^verbatim>\<open>Path(path).glob(pattern)\<close> yields: the matching paths, in the order in which the
  file system enumerates them.
\<close>

definition find_files_with_same_pattern :: "path list \<Rightarrow> path list" where
  "find_files_with_same_pattern globbed = sorted_paths globbed"

subsection \<open>The outside world and the trace of calls made to it\<close>

type_synonym volume = "(path \<times> (string \<times> string) list) list"

text \<open>One call of \<^verbatim>\<open>client.containers.run(image, command, working_dir=..., **kwargs)\<close>;
  a keyword argument that the caller does not pass is \<open>None\<close>.\<close>

record invocation =
  run_image :: string
  run_command :: "string list"
  run_working_dir :: string
  kw_volumes :: "volume option"
  kw_remove :: "bool option"

text \<open>The calls made to matplotlib, with their arguments; the decimal literals
  \<^verbatim>\<open>0.7\<close> and \<^verbatim>\<open>0.1\<close> are the rationals they denote.\<close>

datatype 'f plt_call =
    Subplots
  | AxPlot "'f list" "'f list" string rat
  | Xlabel string
  | Ylabel string
  | Title string
  | Legend string
  | Xlim 'f 'f
  | MinorticksOn
  | TickParams string string string bool bool
  | Suptitle string nat nat
  | Savefig string string rat nat

datatype 'f effect =
    Mkdir string
  | ContainersRun invocation
  | TarExtract path string string
  | Rmtree string
  | Plt "'f plt_call"

text \<open>
  What the repository calls and does not define. \<open>'w\<close> is the state of the file system
  and of the Docker daemon, \<open>'f\<close> the type of Python's floats.
  \<^item> \<open>docker_run\<close>: \<^verbatim>\<open>docker.from_env().containers.run(...)\<close>, the captured output or an
    exception; the container may change the files of the mounted directory.
  \<^item> \<open>fs_glob\<close>: \<^verbatim>\<open>Path(d).glob(pattern)\<close>, in the order of enumeration.
  \<^item> \<open>fs_readlines\<close>: the lines of a text file, each with its line end.
  \<^item> \<open>fs_mkdir\<close>: \<^verbatim>\<open>Path(p).mkdir(parents=True, exist_ok=True)\<close>.
  \<^item> \<open>fs_rmtree\<close>: \<^verbatim>\<open>shutil.rmtree(p)\<close>.
  \<^item> \<open>tar_getmembers\<close>: the member names of \<^verbatim>\<open>tarfile.open(p, "r:gz")\<close>.
  \<^item> \<open>tar_extract\<close>: \<^verbatim>\<open>tar.extract(member, path=dest)\<close>.
  \<^item> \<open>decode_utf8\<close>: \<^verbatim>\<open>bytes.decode("utf-8")\<close>.
  \<^item> \<open>py_float\<close>: the builtin \<^verbatim>\<open>float(token)\<close>, \<open>None\<close> where it raises \<^verbatim>\<open>ValueError\<close>.
  \<^item> \<open>div_1000\<close>: \<^verbatim>\<open>v / 1000\<close> on a float.
  \<^item> \<open>isfinite\<close>: a float is neither \<^verbatim>\<open>nan\<close> nor \<^verbatim>\<open>inf\<close> nor \<^verbatim>\<open>-inf\<close>
    (\<^verbatim>\<open>float\<close> reads all three).
  \<^item> \<open>plt_savefig\<close>: \<^verbatim>\<open>plt.savefig(fname, ...)\<close>, which renders the current figure and
    writes the file, or raises (a label that is not valid mathtext, a file that cannot
    be written).
\<close>

record ('w, 'f) env =
  docker_run :: "invocation \<Rightarrow> 'w \<Rightarrow> (py_error + string) \<times> 'w"
  fs_glob :: "path \<Rightarrow> string \<Rightarrow> 'w \<Rightarrow> path list"
  fs_readlines :: "string \<Rightarrow> 'w \<Rightarrow> py_error + string list"
  fs_mkdir :: "string \<Rightarrow> 'w \<Rightarrow> (py_error + unit) \<times> 'w"
  fs_rmtree :: "string \<Rightarrow> 'w \<Rightarrow> (py_error + unit) \<times> 'w"
  tar_getmembers :: "path \<Rightarrow> 'w \<Rightarrow> py_error + string list"
  tar_extract :: "path \<Rightarrow> string \<Rightarrow> string \<Rightarrow> 'w \<Rightarrow> (py_error + unit) \<times> 'w"
  decode_utf8 :: "string \<Rightarrow> py_error + string"
  py_float :: "string \<Rightarrow> 'f option"
  div_1000 :: "'f \<Rightarrow> 'f"
  isfinite :: "'f \<Rightarrow> bool"
  plt_savefig :: "string \<Rightarrow> 'w \<Rightarrow> (py_error + unit) \<times> 'w"

record ('w, 'f) state =
  world :: 'w
  trace :: "'f effect list"

text \<open>An operation of the program: from a state to a result, or the exception it
  raised, and the state it leaves.\<close>

type_synonym ('w, 'f, 'a) action = "('w, 'f) state \<Rightarrow> (py_error + 'a) \<times> ('w, 'f) state"

definition returnE :: "'a \<Rightarrow> ('w, 'f, 'a) action" where
  "returnE x = (\<lambda>s. (Inr x, s))"

definition liftE :: "py_error + 'a \<Rightarrow> ('w, 'f, 'a) action" where
  "liftE r = (\<lambda>s. (r, s))"

text \<open>Sequencing: an exception of the first part skips the second.\<close>

definition bindE :: "('w, 'f, 'a) action \<Rightarrow> ('a \<Rightarrow> ('w, 'f, 'b) action) \<Rightarrow> ('w, 'f, 'b) action" where
  "bindE m f = (\<lambda>s. case m s of (Inl e, s') \<Rightarrow> (Inl e, s') | (Inr x, s') \<Rightarrow> f x s')"

text \<open>A call that changes the world: it is appended to the trace when it is made,
  whether or not it raises.\<close>

definition call_world ::
  "'f effect \<Rightarrow> ('w \<Rightarrow> (py_error + 'a) \<times> 'w) \<Rightarrow> ('w, 'f, 'a) action" where
  "call_world ev f =
     (\<lambda>s. case f (world s) of (r, w') \<Rightarrow> (r, \<lparr>world = w', trace = trace s @ [ev]\<rparr>))"

text \<open>A call that only reads the world.\<close>

definition read_world :: "('w \<Rightarrow> py_error + 'a) \<Rightarrow> ('w, 'f, 'a) action" where
  "read_world f = (\<lambda>s. (f (world s), s))"

text \<open>
  A call to matplotlib that stores its arguments in the figure and returns. The calls
  that can raise are modelled where they are made: \<^verbatim>\<open>ax.plot\<close> on two series of
  different lengths and \<^verbatim>\<open>plt.xlim\<close> on a limit that is not finite in \<^verbatim>\<open>plot_data\<close>, and
  \<^verbatim>\<open>plt.savefig\<close> below.
\<close>

definition plt :: "'f plt_call \<Rightarrow> ('w, 'f, unit) action" where
  "plt c = (\<lambda>s. (Inr (), s\<lparr>trace := trace s @ [Plt c]\<rparr>))"

text \<open>\<^verbatim>\<open>plt.savefig(fname, bbox_inches=..., pad_inches=..., dpi=...)\<close>: the call is made,
  and the library decides whether it returns.\<close>

definition savefig ::
  "('w, 'f) env \<Rightarrow> string \<Rightarrow> string \<Rightarrow> rat \<Rightarrow> nat \<Rightarrow> ('w, 'f, unit) action" where
  "savefig env fname bbox_inches pad_inches dpi =
     call_world (Plt (Savefig fname bbox_inches pad_inches dpi)) (plt_savefig env fname)"

subsection \<open>helpers.py: folders\<close>

text \<open>\<^verbatim>\<open>create_folder(path, folder_name)\<close>; the folder is \<^verbatim>\<open>f'{path}/{folder_name}'\<close>.\<close>

definition create_folder :: "('w, 'f) env \<Rightarrow> path \<Rightarrow> string \<Rightarrow> ('w, 'f, unit) action" where
  "create_folder env path folder_name =
     call_world (Mkdir (path @ ''/'' @ folder_name)) (fs_mkdir env (path @ ''/'' @ folder_name))"

subsection \<open>gromacs.py: class GromacsData\<close>

record gromacs_data =
  gd_path :: path
  gd_volume :: volume
  gd_results_folder :: path

definition CONTAINER_WORK_DIR :: string where
  "CONTAINER_WORK_DIR = ''/container/data''"

text \<open>\<^verbatim>\<open>GromacsData.__init__\<close>.\<close>

definition GromacsData_init :: "('w, 'f) env \<Rightarrow> path \<Rightarrow> ('w, 'f, gromacs_data) action" where
  "GromacsData_init env path =
     bindE (create_folder env path ''results'')
       (\<lambda>_. returnE
          \<lparr>gd_path = path,
           gd_volume = [(path, [(''bind'', CONTAINER_WORK_DIR), (''mode'', ''rw'')])],
           gd_results_folder = path @ ''/results''\<rparr>)"

text \<open>\<^verbatim>\<open>_run_gromacs_container(command, working_dir=CONTAINER_WORK_DIR, **kwargs)\<close>; every
  caller leaves \<open>working_dir\<close> at its default.\<close>

definition run_gromacs_container ::
  "('w, 'f) env \<Rightarrow> string list \<Rightarrow> string \<Rightarrow> volume option \<Rightarrow> bool option
     \<Rightarrow> ('w, 'f, string) action" where
  "run_gromacs_container env command working_dir volumes remove =
     (let gromacs_image = ''jpmontoya19/gromacs:latest'';
          request = \<lparr>run_image = gromacs_image, run_command = command,
                 run_working_dir = working_dir, kw_volumes = volumes, kw_remove = remove\<rparr>
      in call_world (ContainersRun request) (docker_run env request))"

text \<open>\<^verbatim>\<open>_find_last_tpr_file\<close>: the name and the path of the last match.\<close>

definition find_last_tpr_file ::
  "('w, 'f) env \<Rightarrow> gromacs_data \<Rightarrow> ('w, 'f, string \<times> path) action" where
  "find_last_tpr_file env self =
     bindE (read_world (\<lambda>w. Inr (fs_glob env (gd_path self) ''md_0_*.tpr'' w)))
       (\<lambda>globbed. bindE (liftE (py_last (find_files_with_same_pattern globbed)))
          (\<lambda>last_tpr. returnE (path_name last_tpr, last_tpr)))"

definition sh :: "string \<Rightarrow> string list" where
  "sh c = [''sh'', ''-c'', c]"

definition generate_minimization_data ::
  "('w, 'f) env \<Rightarrow> gromacs_data \<Rightarrow> ('w, 'f, string) action" where
  "generate_minimization_data env self =
     bindE (run_gromacs_container env
              (sh ''echo 10 0 | gmx energy -f em.edr -o potential.xvg'')
              CONTAINER_WORK_DIR (Some (gd_volume self)) (Some True))
       (\<lambda>out. liftE (decode_utf8 env out))"

definition generate_nvt_data ::
  "('w, 'f) env \<Rightarrow> gromacs_data \<Rightarrow> ('w, 'f, string) action" where
  "generate_nvt_data env self =
     bindE (run_gromacs_container env
              (sh ''echo 16 0 | gmx energy -f nvt.edr -o temperature.xvg'')
              CONTAINER_WORK_DIR (Some (gd_volume self)) None)
       (\<lambda>out. liftE (decode_utf8 env out))"

definition generate_npt_data ::
  "('w, 'f) env \<Rightarrow> gromacs_data \<Rightarrow> ('w, 'f, string) action" where
  "generate_npt_data env self =
     bindE (run_gromacs_container env
              (sh ''echo 18 0 | gmx energy -f npt.edr -o pressure.xvg'')
              CONTAINER_WORK_DIR (Some (gd_volume self)) None)
       (\<lambda>out. bindE (liftE (decode_utf8 env out))
          (\<lambda>pressure. bindE (run_gromacs_container env
                                 (sh ''echo 24 0 | gmx energy -f npt.edr -o density.xvg'')
                                 CONTAINER_WORK_DIR (Some (gd_volume self)) None)
             (\<lambda>out'. bindE (liftE (decode_utf8 env out'))
                (\<lambda>density. returnE (pressure @ '', '' @ [CHR 0x0A] @ '', '' @ density)))))"

text \<open>\<^verbatim>\<open>generate_final_xtc_file\<close>. The inner loop extracts the \<^verbatim>\<open>.xtc\<close> members of one
  archive, the outer loop goes through the archives in the order of discovery.\<close>

fun extract_xtc_members ::
  "('w, 'f) env \<Rightarrow> path \<Rightarrow> path \<Rightarrow> string list \<Rightarrow> string list \<Rightarrow> ('w, 'f, string list) action" where
  "extract_xtc_members env dest step [] xtc_files = returnE xtc_files"
| "extract_xtc_members env dest step (member # members) xtc_files =
     (if endswith member ''.xtc''
      then bindE (call_world (TarExtract step member dest) (tar_extract env step member dest))
             (\<lambda>_. extract_xtc_members env dest step members (xtc_files @ [member]))
      else extract_xtc_members env dest step members xtc_files)"

fun extract_steps ::
  "('w, 'f) env \<Rightarrow> path \<Rightarrow> path list \<Rightarrow> string list \<Rightarrow> ('w, 'f, string list) action" where
  "extract_steps env dest [] xtc_files = returnE xtc_files"
| "extract_steps env dest (step # steps) xtc_files =
     bindE (read_world (tar_getmembers env step))
       (\<lambda>members. bindE (extract_xtc_members env dest step members xtc_files)
          (\<lambda>xtc_files'. extract_steps env dest steps xtc_files'))"

text \<open>\<^verbatim>\<open>f"gmx trjcat -f {' '.join(xtc_files)} -o final.xtc"\<close>.\<close>

definition trjcat_command :: "string list \<Rightarrow> string" where
  "trjcat_command xtc_files = ''gmx trjcat -f '' @ py_join '' '' xtc_files @ '' -o final.xtc''"

definition generate_final_xtc_file ::
  "('w, 'f) env \<Rightarrow> gromacs_data \<Rightarrow> ('w, 'f, unit) action" where
  "generate_final_xtc_file env self =
     bindE (read_world (\<lambda>w. Inr (fs_glob env (gd_path self) ''my_job_*.output.tar.gz'' w)))
       (\<lambda>globbed. bindE (extract_steps env (gd_path self)
                            (find_files_with_same_pattern globbed) [])
          (\<lambda>xtc_files. bindE (run_gromacs_container env (sh (trjcat_command xtc_files))
                                 CONTAINER_WORK_DIR (Some (gd_volume self)) None)
             (\<lambda>_. call_world (Rmtree (gd_path self @ ''/my_output''))
                     (fs_rmtree env (gd_path self @ ''/my_output'')))))"

text \<open>The f-string of \<^verbatim>\<open>fix_periodicity\<close>; the line break inside the braces is not
  part of the string.\<close>

definition periodicity_command :: "string \<Rightarrow> string" where
  "periodicity_command filename =
     ''echo 1 0 | gmx trjconv -s '' @ filename
       @ '' -f final.xtc -o fixed.xtc -center -pbc mol -ur compact''"

definition fix_periodicity ::
  "('w, 'f) env \<Rightarrow> gromacs_data \<Rightarrow> ('w, 'f, string) action" where
  "fix_periodicity env self =
     bindE (find_last_tpr_file env self)
       (\<lambda>(filename, _). bindE (run_gromacs_container env (sh (periodicity_command filename))
                                  CONTAINER_WORK_DIR (Some (gd_volume self)) None)
          (\<lambda>out. liftE (decode_utf8 env out)))"

text \<open>
  The triple-quoted f-string of the two dump operations. A backslash at the end of a
  line joins it to the next one, so the string has a line break after the opening
  quotes and one after the \<^verbatim>\<open>-dump\<close> argument, and the indentation of every line.
\<close>

definition spaces :: "nat \<Rightarrow> string" where
  "spaces n = replicate n (CHR '' '')"

definition dump_command :: "string \<Rightarrow> string \<Rightarrow> string \<Rightarrow> string" where
  "dump_command filename output dump_time =
     [CHR 0x0A] @ spaces 16 @ ''echo 22 | ''
       @ spaces 16 @ ''gmx trjconv ''
       @ spaces 20 @ ''-s '' @ filename @ '' ''
       @ spaces 20 @ ''-f fixed.xtc ''
       @ spaces 20 @ ''-n index.ndx ''
       @ spaces 20 @ ''-o '' @ output @ '' ''
       @ spaces 20 @ ''-dump '' @ dump_time @ [CHR 0x0A]
       @ spaces 12"

definition get_initial_configuration ::
  "('w, 'f) env \<Rightarrow> gromacs_data \<Rightarrow> ('w, 'f, unit) action" where
  "get_initial_configuration env self =
     bindE (find_last_tpr_file env self)
       (\<lambda>(filename, _).
          bindE (run_gromacs_container env
                   (sh (dump_command filename ''initial_configuration.pdb'' ''0''))
                   CONTAINER_WORK_DIR (Some (gd_volume self)) None)
            (\<lambda>_. returnE ()))"

text \<open>
  \<^verbatim>\<open>re.search(r'Last frame\s+(\d+(\.\d+)?)', line)\<close>, group 1 of the match or \<open>None\<close>.
  \<open>match_last_frame\<close> matches at the start of its argument: the literal text, all the
  whitespace that follows (at least one character), all the digits that follow (at
  least one), then a dot and digits when both are there. \<open>search_last_frame\<close> tries every
  start from left to right.
\<close>

definition match_fraction :: "string \<Rightarrow> string" where
  "match_fraction s =
     (case s of
        [] \<Rightarrow> []
      | c # cs \<Rightarrow>
          if c = CHR ''.'' \<and> takeWhile py_isdigit cs \<noteq> []
          then c # takeWhile py_isdigit cs else [])"

definition match_last_frame :: "string \<Rightarrow> string option" where
  "match_last_frame s =
     (if startswith s ''Last frame''
      then (let r = drop (length ''Last frame'') s;
                r' = dropWhile py_isspace r;
                digits = takeWhile py_isdigit r'
            in if takeWhile py_isspace r = [] \<or> digits = [] then None
               else Some (digits @ match_fraction (dropWhile py_isdigit r')))
      else None)"

fun search_last_frame :: "string \<Rightarrow> string option" where
  "search_last_frame [] = match_last_frame []"
| "search_last_frame (c # cs) =
     (case match_last_frame (c # cs) of
        Some g \<Rightarrow> Some g
      | None \<Rightarrow> search_last_frame cs)"

text \<open>The loop over the lines of the report: the first line that matches decides.\<close>

fun find_last_frame :: "string list \<Rightarrow> string option" where
  "find_last_frame [] = None"
| "find_last_frame (line # lines) =
     (case search_last_frame line of
        Some g \<Rightarrow> Some g
      | None \<Rightarrow> find_last_frame lines)"

text \<open>\<^verbatim>\<open>f"{last_frame}"\<close>: \<^verbatim>\<open>None\<close> is formatted as the text \<^verbatim>\<open>None\<close>.\<close>

definition format_last_frame :: "string option \<Rightarrow> string" where
  "format_last_frame last_frame = (case last_frame of None \<Rightarrow> ''None'' | Some g \<Rightarrow> g)"

definition get_latest_configuration ::
  "('w, 'f) env \<Rightarrow> gromacs_data \<Rightarrow> ('w, 'f, unit) action" where
  "get_latest_configuration env self =
     bindE (run_gromacs_container env
              (sh ''gmx check -f fixed.xtc > trajectory_info.txt 2>&1'')
              CONTAINER_WORK_DIR (Some (gd_volume self)) None)
       (\<lambda>_. bindE (read_world (fs_readlines env (gd_path self @ ''/trajectory_info.txt'')))
          (\<lambda>lines. let last_frame = find_last_frame lines in
             bindE (find_last_tpr_file env self)
               (\<lambda>(filename, _).
                  bindE (run_gromacs_container env
                           (sh (dump_command filename ''last_configuration.pdb''
                                  (format_last_frame last_frame)))
                           CONTAINER_WORK_DIR (Some (gd_volume self)) None)
                    (\<lambda>_. returnE ()))))"

subsection \<open>helpers.py: the tabular reader\<close>

text \<open>\<^verbatim>\<open>[float(val) for val in tokens]\<close>: the first token that \<^verbatim>\<open>float\<close> rejects
  raises \<^verbatim>\<open>ValueError\<close>.\<close>

fun parse_values :: "(string \<Rightarrow> 'f option) \<Rightarrow> string list \<Rightarrow> py_error + 'f list" where
  "parse_values float [] = Inr []"
| "parse_values float (val # vals) =
     (case float val of
        None \<Rightarrow> Inl ValueError
      | Some v \<Rightarrow>
          (case parse_values float vals of
             Inl e \<Rightarrow> Inl e
           | Inr vs \<Rightarrow> Inr (v # vs)))"

definition is_comment :: "string \<Rightarrow> bool" where
  "is_comment line = (startswith line ''#'' \<or> startswith line ''@'')"

text \<open>The loop of \<^verbatim>\<open>read_xvg_files\<close> over the lines of the file; \<open>data\<close> is the list of
  rows read so far.\<close>

fun read_rows ::
  "(string \<Rightarrow> 'f option) \<Rightarrow> string list \<Rightarrow> 'f list list \<Rightarrow> py_error + 'f list list" where
  "read_rows float [] data = Inr data"
| "read_rows float (line # lines) data =
     (if is_comment line then read_rows float lines data
      else (case parse_values float (py_split line) of
              Inl e \<Rightarrow> Inl e
            | Inr values \<Rightarrow> read_rows float lines (data @ [values])))"

text \<open>
  A NumPy array of floats of one or two dimensions: its shape and its rows.
  \<^verbatim>\<open>np.array(data, dtype=float)\<close> on a list of lists of floats gives shape \<open>(0,)\<close> for the
  empty list, shape \<open>(N, M)\<close> for \<open>N\<close> rows of \<open>M\<close> floats each, and raises
  \<^verbatim>\<open>ValueError\<close> (an inhomogeneous shape) when two rows differ in length.
\<close>

datatype 'f ndarray = NdArray (nd_shape: "nat list") (nd_rows: "'f list list")

definition np_array :: "'f list list \<Rightarrow> py_error + 'f ndarray" where
  "np_array data =
     (case data of
        [] \<Rightarrow> Inr (NdArray [0] [])
      | row # _ \<Rightarrow>
          if list_all (\<lambda>r. length r = length row) data
          then Inr (NdArray [length data, length row] data)
          else Inl ValueError)"

text \<open>\<^verbatim>\<open>a[:, j]\<close>: too many indices for an array of one dimension, and an index out
  of bounds where the rows have no column \<open>j\<close>, are both \<^verbatim>\<open>IndexError\<close>.\<close>

definition nd_column :: "'f ndarray \<Rightarrow> nat \<Rightarrow> py_error + 'f list" where
  "nd_column a j =
     (case nd_shape a of
        [n, m] \<Rightarrow> if j < m then Inr (map (\<lambda>r. r ! j) (nd_rows a)) else Inl IndexError
      | _ \<Rightarrow> Inl IndexError)"

definition read_xvg_files :: "('w, 'f) env \<Rightarrow> string \<Rightarrow> ('w, 'f, 'f ndarray) action" where
  "read_xvg_files env file_path =
     bindE (read_world (fs_readlines env file_path))
       (\<lambda>lines. bindE (liftE (read_rows (py_float env) lines []))
          (\<lambda>data. liftE (np_array data)))"

subsection \<open>plots.py: class Plots\<close>

record plots =
  pl_path :: path
  pl_protein :: string
  images_path :: string

definition Plots_init :: "('w, 'f) env \<Rightarrow> path \<Rightarrow> string \<Rightarrow> ('w, 'f, plots) action" where
  "Plots_init env path protein =
     bindE (create_folder env path ''images'')
       (\<lambda>_. returnE \<lparr>pl_path = path, pl_protein = protein, images_path = path @ ''/images/''\<rparr>)"

datatype figure = Figure

text \<open>
  \<^verbatim>\<open>plot_data(x, y, titles)\<close>, call by call. \<^verbatim>\<open>ax.plot(x, y, ...)\<close> raises
  \<^verbatim>\<open>ValueError\<close> when the two series differ in length; \<^verbatim>\<open>titles[i]\<close>, \<^verbatim>\<open>x[0]\<close> and
  \<^verbatim>\<open>x[-1]\<close> raise \<^verbatim>\<open>IndexError\<close> out of range; \<^verbatim>\<open>plt.xlim(left=..., right=...)\<close>
  raises \<^verbatim>\<open>ValueError\<close> (axis limits cannot be NaN or Inf) when a limit is not finite.
\<close>

definition plot_data ::
  "('w, 'f) env \<Rightarrow> 'f list \<Rightarrow> 'f list \<Rightarrow> string list \<Rightarrow> ('w, 'f, figure) action" where
  "plot_data env x y titles =
     bindE (plt Subplots) (\<lambda>_.
     bindE (plt (AxPlot x y ''black'' (7 / 10))) (\<lambda>_.
     bindE (liftE (if length x = length y then Inr () else Inl ValueError)) (\<lambda>_.
     bindE (liftE (py_nth titles 0)) (\<lambda>t0.
     bindE (plt (Xlabel t0)) (\<lambda>_.
     bindE (liftE (py_nth titles 1)) (\<lambda>t1.
     bindE (plt (Ylabel t1)) (\<lambda>_.
     bindE (liftE (py_nth titles 2)) (\<lambda>t2.
     bindE (plt (Title t2)) (\<lambda>_.
     bindE (if length titles = 4
            then bindE (liftE (py_last titles)) (\<lambda>t. plt (Legend t))
            else returnE ()) (\<lambda>_.
     bindE (liftE (py_first x)) (\<lambda>left.
     bindE (liftE (py_last x)) (\<lambda>right.
     bindE (plt (Xlim left right)) (\<lambda>_.
     bindE (liftE (if isfinite env left \<and> isfinite env right
                   then Inr () else Inl ValueError)) (\<lambda>_.
     bindE (plt MinorticksOn) (\<lambda>_.
     bindE (plt (TickParams ''both'' ''both'' ''in'' True True)) (\<lambda>_.
     returnE Figure))))))))))))))))"

text \<open>The four wrappers: read the table, take the first two columns, plot, set the
  super-title, save. \<^verbatim>\<open>plot_energy_minimization\<close> divides the first column by 1000.\<close>

definition plot_energy_minimization :: "('w, 'f) env \<Rightarrow> plots \<Rightarrow> ('w, 'f, unit) action" where
  "plot_energy_minimization env self =
     bindE (read_xvg_files env (pl_path self @ ''/potential.xvg'')) (\<lambda>energy_data.
     bindE (liftE (nd_column energy_data 0)) (\<lambda>c0.
     bindE (liftE (nd_column energy_data 1)) (\<lambda>c1.
     bindE (plot_data env (map (div_1000 env) c0) c1
              [''Time $(ns)$'', ''Potential Energy $(kJ/mol)$'', pl_protein self]) (\<lambda>_.
     bindE (plt (Suptitle ''Energy Minimization'' 20 1)) (\<lambda>_.
     savefig env (images_path self @ ''minimization.png'') ''tight'' (1 / 10) 300)))))"

definition plot_temperature :: "('w, 'f) env \<Rightarrow> plots \<Rightarrow> ('w, 'f, unit) action" where
  "plot_temperature env self =
     bindE (read_xvg_files env (pl_path self @ ''/temperature.xvg'')) (\<lambda>temperature.
     bindE (liftE (nd_column temperature 0)) (\<lambda>c0.
     bindE (liftE (nd_column temperature 1)) (\<lambda>c1.
     bindE (plot_data env c0 c1
              [''Time $(ps)$'', ''Potential Energy $(K)$'',
               pl_protein self @ '', NVT Equilibration'']) (\<lambda>_.
     bindE (plt (Suptitle ''Temperature'' 20 1)) (\<lambda>_.
     savefig env (images_path self @ ''temperature.png'') ''tight'' (1 / 10) 300)))))"

definition plot_pressure :: "('w, 'f) env \<Rightarrow> plots \<Rightarrow> ('w, 'f, unit) action" where
  "plot_pressure env self =
     bindE (read_xvg_files env (pl_path self @ ''/pressure.xvg'')) (\<lambda>pressure.
     bindE (liftE (nd_column pressure 0)) (\<lambda>c0.
     bindE (liftE (nd_column pressure 1)) (\<lambda>c1.
     bindE (plot_data env c0 c1
              [''Time $(ps)$'', ''Pressure $(bar)$'',
               pl_protein self @ '', NPT Equilibration'']) (\<lambda>_.
     bindE (plt (Suptitle ''Pressure'' 20 1)) (\<lambda>_.
     savefig env (images_path self @ ''pressure.png'') ''tight'' (1 / 10) 300)))))"

definition plot_density :: "('w, 'f) env \<Rightarrow> plots \<Rightarrow> ('w, 'f, unit) action" where
  "plot_density env self =
     bindE (read_xvg_files env (pl_path self @ ''/density.xvg'')) (\<lambda>density.
     bindE (liftE (nd_column density 0)) (\<lambda>c0.
     bindE (liftE (nd_column density 1)) (\<lambda>c1.
     bindE (plot_data env c0 c1
              [''Time $(ps)$'', ''Density $(kg/m^{3})$'',
               pl_protein self @ '', NPT Equilibration'']) (\<lambda>_.
     bindE (plt (Suptitle ''Density'' 20 1)) (\<lambda>_.
     savefig env (images_path self @ ''density.png'') ''tight'' (1 / 10) 300)))))"

subsection \<open>main.py: class LigandPlots\<close>

record ligand_plots =
  lp_path :: path
  lp_protein :: string
  lp_run_gromacs :: bool

definition generate_gromacs_data :: "('w, 'f) env \<Rightarrow> ligand_plots \<Rightarrow> ('w, 'f, unit) action" where
  "generate_gromacs_data env self =
     bindE (GromacsData_init env (lp_path self)) (\<lambda>gromacs.
     bindE (generate_minimization_data env gromacs) (\<lambda>energy_minimization.
     bindE (generate_nvt_data env gromacs) (\<lambda>temperature_data.
     bindE (generate_npt_data env gromacs) (\<lambda>npt_data.
     bindE (if lp_run_gromacs self
            then bindE (generate_final_xtc_file env gromacs) (\<lambda>_.
                 bindE (fix_periodicity env gromacs) (\<lambda>periodicity. returnE ()))
            else returnE ()) (\<lambda>_.
     bindE (get_initial_configuration env gromacs) (\<lambda>_.
     get_latest_configuration env gromacs))))))"

definition generate_ligand_plots :: "('w, 'f) env \<Rightarrow> ligand_plots \<Rightarrow> ('w, 'f, unit) action" where
  "generate_ligand_plots env self =
     bindE (Plots_init env (lp_path self) (lp_protein self)) (\<lambda>plots.
     bindE (plot_energy_minimization env plots) (\<lambda>_.
     bindE (plot_temperature env plots) (\<lambda>_.
     bindE (plot_pressure env plots) (\<lambda>_.
     plot_density env plots))))"

definition Run :: "('w, 'f) env \<Rightarrow> ligand_plots \<Rightarrow> ('w, 'f, unit) action" where
  "Run env self = bindE (generate_gromacs_data env self) (\<lambda>_. generate_ligand_plots env self)"

subsection \<open>Vocabulary of the properties\<close>

text \<open>What an operation appends to the trace, related to its result: \<open>emits m Q\<close> says
  that from every state, \<open>m\<close> appends some events \<open>evs\<close> and ends with a result \<open>r\<close>
  such that \<open>Q r evs\<close>.\<close>

definition emits :: "('w, 'f, 'a) action \<Rightarrow> ((py_error + 'a) \<Rightarrow> 'f effect list \<Rightarrow> bool) \<Rightarrow> bool" where
  "emits m Q = (\<forall>s. \<exists>evs. trace (snd (m s)) = trace s @ evs \<and> Q (fst (m s)) evs)"

text \<open>The call to Docker that \<^verbatim>\<open>_run_gromacs_container\<close> makes for a shell command, with
  the volume mapping of the object and the value of \<^verbatim>\<open>remove\<close>.\<close>

definition container_call :: "gromacs_data \<Rightarrow> string \<Rightarrow> bool option \<Rightarrow> invocation" where
  "container_call self shell_command rm =
     \<lparr>run_image = ''jpmontoya19/gromacs:latest'',
      run_command = [''sh'', ''-c'', shell_command],
      run_working_dir = ''/container/data'',
      kw_volumes = Some (gd_volume self),
      kw_remove = rm\<rparr>"

text \<open>The calls that \<^verbatim>\<open>plot_data\<close> makes to matplotlib when nothing raises.\<close>

definition plot_data_calls :: "'f list \<Rightarrow> 'f list \<Rightarrow> string list \<Rightarrow> 'f plt_call list" where
  "plot_data_calls x y titles =
     [Subplots, AxPlot x y ''black'' (7 / 10),
      Xlabel (titles ! 0), Ylabel (titles ! 1), Title (titles ! 2)]
     @ (if length titles = 4 then [Legend (last titles)] else [])
     @ [Xlim (hd x) (last x), MinorticksOn, TickParams ''both'' ''both'' ''in'' True True]"

text \<open>\<open>only_emits m K\<close>: every event that \<open>m\<close> appends satisfies \<open>K\<close>.\<close>

definition only_emits :: "('w, 'f, 'a) action \<Rightarrow> ('f effect \<Rightarrow> bool) \<Rightarrow> bool" where
  "only_emits m K = emits m (\<lambda>r evs. list_all K evs)"

text \<open>What a list of events shows of one kind of call: \<open>f\<close> maps an event to the
  observations it stands for. \<open>observes f m A\<close> says that the observations of what \<open>m\<close>
  appends are a prefix of one of the sequences in \<open>A\<close>, and the whole sequence when \<open>m\<close>
  returns.\<close>

definition observed :: "('f effect \<Rightarrow> 'o list) \<Rightarrow> 'f effect list \<Rightarrow> 'o list" where
  "observed f evs = concat (map f evs)"

definition observes ::
  "('f effect \<Rightarrow> 'o list) \<Rightarrow> ('w, 'f, 'a) action \<Rightarrow> 'o list set \<Rightarrow> bool" where
  "observes f m A =
     emits m (\<lambda>r evs. \<exists>L\<in>A. prefix (observed f evs) L \<and> (returned r \<longrightarrow> observed f evs = L))"

definition cat :: "'o list set \<Rightarrow> 'o list set \<Rightarrow> 'o list set" where
  "cat A B = {a @ b |a b. a \<in> A \<and> b \<in> B}"

text \<open>The events that a step added to the trace.\<close>

definition new_events :: "('w, 'f) state \<Rightarrow> ('w, 'f) state \<Rightarrow> 'f effect list" where
  "new_events s s' = drop (length (trace s)) (trace s')"

text \<open>A call to Docker with the fixed image, the fixed working directory of the
  container and the volume mapping \<open>vol\<close>; other events are not constrained.\<close>

definition container_uses :: "volume \<Rightarrow> 'f effect \<Rightarrow> bool" where
  "container_uses vol e =
     (case e of
        ContainersRun c \<Rightarrow>
          run_image c = ''jpmontoya19/gromacs:latest''
        \<and> run_working_dir c = ''/container/data''
        \<and> kw_volumes c = Some vol
      | _ \<Rightarrow> True)"

text \<open>The command of a call to Docker, the file name of a \<^verbatim>\<open>savefig\<close>, and the kinds of
  events.\<close>

definition command_of :: "'f effect \<Rightarrow> string list list" where
  "command_of e = (case e of ContainersRun c \<Rightarrow> [run_command c] | _ \<Rightarrow> [])"

definition savefig_of :: "'f effect \<Rightarrow> string list" where
  "savefig_of e = (case e of Plt (Savefig fname _ _ _) \<Rightarrow> [fname] | _ \<Rightarrow> [])"

definition is_chart :: "'f effect \<Rightarrow> bool" where
  "is_chart e = (case e of Plt _ \<Rightarrow> True | _ \<Rightarrow> False)"

definition is_container_run :: "'f effect \<Rightarrow> bool" where
  "is_container_run e = (case e of ContainersRun _ \<Rightarrow> True | _ \<Rightarrow> False)"

definition is_trajectory_file_op :: "'f effect \<Rightarrow> bool" where
  "is_trajectory_file_op e = (case e of TarExtract _ _ _ \<Rightarrow> True | Rmtree _ \<Rightarrow> True | _ \<Rightarrow> False)"

text \<open>
  The commands of a whole simulation run, in the order of \<^verbatim>\<open>generate_gromacs_data\<close>:
  minimization, NVT, NPT pressure and density, then, when the flag is set,
  concatenation of the trajectory files \<open>xtc_files\<close> and the periodicity fix, then the
  dump of the initial configuration, the check of the trajectory and the dump of the
  latest configuration. \<open>tpr1\<close>, \<open>tpr2\<close> and \<open>tpr3\<close> are the topology files found by the three
  operations that look for one, \<open>last_frame\<close> is the result of the search in the report.
\<close>

definition simulation_commands ::
  "bool \<Rightarrow> string list \<Rightarrow> string \<Rightarrow> string \<Rightarrow> string \<Rightarrow> string option \<Rightarrow> string list list" where
  "simulation_commands flag xtc_files tpr1 tpr2 tpr3 last_frame =
     [sh ''echo 10 0 | gmx energy -f em.edr -o potential.xvg'',
      sh ''echo 16 0 | gmx energy -f nvt.edr -o temperature.xvg'',
      sh ''echo 18 0 | gmx energy -f npt.edr -o pressure.xvg'',
      sh ''echo 24 0 | gmx energy -f npt.edr -o density.xvg'']
     @ (if flag then [sh (trjcat_command xtc_files), sh (periodicity_command tpr1)] else [])
     @ [sh (dump_command tpr2 ''initial_configuration.pdb'' ''0''),
        sh ''gmx check -f fixed.xtc > trajectory_info.txt 2>&1'',
        sh (dump_command tpr3 ''last_configuration.pdb'' (format_last_frame last_frame))]"

text \<open>The four images of \<^verbatim>\<open>generate_ligand_plots\<close>, in the order in which they are saved.\<close>

definition chart_files :: "path \<Rightarrow> string list" where
  "chart_files path =
     [path @ ''/images/'' @ ''minimization.png'', path @ ''/images/'' @ ''temperature.png'',
      path @ ''/images/'' @ ''pressure.png'', path @ ''/images/'' @ ''density.png'']"

text \<open>The shape of what \<^verbatim>\<open>Run\<close> appends to the trace: the events of the simulation steps,
  then those of the charts.\<close>

definition run_shape ::
  "bool \<Rightarrow> path \<Rightarrow> py_error + unit \<Rightarrow> 'f effect list \<Rightarrow> bool" where
  "run_shape flag path r evs =
     (\<exists>sim charts xtc tpr1 tpr2 tpr3 lf.
        evs = sim @ charts
      \<and> prefix (observed command_of sim) (simulation_commands flag xtc tpr1 tpr2 tpr3 lf)
      \<and> list_all (\<lambda>e. \<not> is_chart e) sim
      \<and> list_all (\<lambda>e. \<not> is_container_run e \<and> \<not> is_trajectory_file_op e) charts
      \<and> list_all (\<lambda>e. \<not> flag \<longrightarrow> \<not> is_trajectory_file_op e) sim
      \<and> (charts \<noteq> [] \<longrightarrow>
           observed command_of sim = simulation_commands flag xtc tpr1 tpr2 tpr3 lf)
      \<and> prefix (observed savefig_of charts) (chart_files path)
      \<and> (returned r \<longrightarrow>
           observed command_of sim = simulation_commands flag xtc tpr1 tpr2 tpr3 lf
         \<and> observed savefig_of charts = chart_files path))"

text \<open>The body of \<^verbatim>\<open>generate_gromacs_data\<close> after the constructor, and the body of
  \<^verbatim>\<open>generate_ligand_plots\<close> after the constructor.\<close>

abbreviation (input) simulation_steps ::
  "('w, 'f) env \<Rightarrow> bool \<Rightarrow> gromacs_data \<Rightarrow> ('w, 'f, unit) action" where
  "simulation_steps env flag gromacs \<equiv>
     bindE (generate_minimization_data env gromacs) (\<lambda>energy_minimization.
     bindE (generate_nvt_data env gromacs) (\<lambda>temperature_data.
     bindE (generate_npt_data env gromacs) (\<lambda>npt_data.
     bindE (if flag
            then bindE (generate_final_xtc_file env gromacs) (\<lambda>_.
                 bindE (fix_periodicity env gromacs) (\<lambda>periodicity. returnE ()))
            else returnE ()) (\<lambda>_.
     bindE (get_initial_configuration env gromacs) (\<lambda>_.
     get_latest_configuration env gromacs)))))"

abbreviation (input) chart_steps :: "('w, 'f) env \<Rightarrow> plots \<Rightarrow> ('w, 'f, unit) action" where
  "chart_steps env plots \<equiv>
     bindE (plot_energy_minimization env plots) (\<lambda>_.
     bindE (plot_temperature env plots) (\<lambda>_.
     bindE (plot_pressure env plots) (\<lambda>_.
     plot_density env plots)))"

subsection \<open>A sample environment\<close>

text \<open>
  A directory whose content never changes (\<open>globs\<close> gives the matches of a pattern,
  \<open>files\<close> the lines of a file), a Docker daemon whose containers print nothing and
  succeed, archives with one trajectory and one log each, a \<^verbatim>\<open>float\<close> that knows
  a few numerals, all of them finite, and a \<^verbatim>\<open>savefig\<close> that succeeds. It is used to
  run the operations on concrete inputs: a working
  directory \<^verbatim>\<open>w\<close> with three topology files, two job archives, the four tables and the
  report of \<^verbatim>\<open>gmx check\<close>.
\<close>

definition demo_float :: "string \<Rightarrow> rat option" where
  "demo_float = map_of [(''0'', 0), (''1'', 1), (''2'', 2), (''3'', 3), (''-7.5'', - 15 / 2), (''1000'', 1000)]"

definition demo_env :: "(string \<Rightarrow> path list) \<Rightarrow> (string \<Rightarrow> string list option) \<Rightarrow> (unit, rat) env" where
  "demo_env globs files =
     \<lparr>docker_run = (\<lambda>request w. (Inr [], w)),
      fs_glob = (\<lambda>d pattern w. globs pattern),
      fs_readlines = (\<lambda>f w. case files f of None \<Rightarrow> Inl OSError | Some ls \<Rightarrow> Inr ls),
      fs_mkdir = (\<lambda>p w. (Inr (), w)),
      fs_rmtree = (\<lambda>p w. (Inr (), w)),
      tar_getmembers = (\<lambda>p w. Inr [''my_output/md_0_1.xtc'', ''my_output/md_0_1.log'']),
      tar_extract = (\<lambda>p m d w. (Inr (), w)),
      decode_utf8 = Inr,
      py_float = demo_float,
      div_1000 = (\<lambda>v. v / 1000),
      isfinite = (\<lambda>v. True),
      plt_savefig = (\<lambda>fname w. (Inr (), w))\<rparr>"

definition demo_state :: "(unit, rat) state" where
  "demo_state = \<lparr>world = (), trace = []\<rparr>"

definition demo_gromacs :: gromacs_data where
  "demo_gromacs =
     \<lparr>gd_path = ''w'',
      gd_volume = [(''w'', [(''bind'', ''/container/data''), (''mode'', ''rw'')])],
      gd_results_folder = ''w/results''\<rparr>"

definition demo_plots :: plots where
  "demo_plots = \<lparr>pl_path = ''w'', pl_protein = ''1abc'', images_path = ''w/images/''\<rparr>"

definition demo_xvg :: "string list" where
  "demo_xvg = [''# gmx energy'' @ [CHR 0x0A], ''@ title'' @ [CHR 0x0A],
               ''0  1'' @ [CHR 0x0A], ''1000 2'' @ [CHR 0x0A]]"

definition demo_globs :: "string \<Rightarrow> path list" where
  "demo_globs pattern =
     (if pattern = ''md_0_*.tpr'' then [''w/md_0_2.tpr'', ''w/md_0_10.tpr'', ''w/md_0_1.tpr'']
      else if pattern = ''my_job_*.output.tar.gz''
      then [''w/my_job_2.output.tar.gz'', ''w/my_job_1.output.tar.gz'']
      else [])"

definition demo_report :: "string list" where
  "demo_report = [''Checking file fixed.xtc'' @ [CHR 0x0A],
                  ''Reading frame 0 time 0.000'' @ [CHR 0x0A],
                  ''Last frame       1500 time 1500.000'' @ [CHR 0x0A]]"

definition demo_files :: "string \<Rightarrow> string list option" where
  "demo_files = map_of
     [(''w/potential.xvg'', demo_xvg), (''w/temperature.xvg'', demo_xvg),
      (''w/pressure.xvg'', demo_xvg), (''w/density.xvg'', demo_xvg),
      (''w/trajectory_info.txt'', demo_report)]"

definition demo_ligand_plots :: "bool \<Rightarrow> ligand_plots" where
  "demo_ligand_plots flag = \<lparr>lp_path = ''w'', lp_protein = ''1abc'', lp_run_gromacs = flag\<rparr>"

text \<open>A table whose two data lines differ in length, and a report of \<^verbatim>\<open>gmx check\<close>
  without the line \<^verbatim>\<open>Last frame\<close>.\<close>

definition demo_ragged :: "string list" where
  "demo_ragged = [''# time value'' @ [CHR 0x0A], ''0 1'' @ [CHR 0x0A], ''2'' @ [CHR 0x0A]]"

definition demo_no_marker :: "string list" where
  "demo_no_marker = [''Checking file fixed.xtc'' @ [CHR 0x0A],
                     ''Item        #frames Timestep (ps)'' @ [CHR 0x0A],
                     ''Step             0'' @ [CHR 0x0A]]"

text \<open>
  The same environment with floats that may be \<^verbatim>\<open>nan\<close>: a float is \<open>Some\<close> rational or
  \<open>None\<close> for \<^verbatim>\<open>nan\<close>, which \<^verbatim>\<open>float\<close> reads from the token \<^verbatim>\<open>nan\<close>; and a table whose
  first time value is \<^verbatim>\<open>nan\<close>.
\<close>

definition demo_nan_float :: "string \<Rightarrow> rat option option" where
  "demo_nan_float = map_of [(''nan'', None), (''0'', Some 0), (''1'', Some 1), (''2'', Some 2)]"

definition demo_nan_xvg :: "string list" where
  "demo_nan_xvg = [''nan 1'' @ [CHR 0x0A], ''1 2'' @ [CHR 0x0A]]"

definition demo_nan_env :: "(unit, rat option) env" where
  "demo_nan_env =
     \<lparr>docker_run = (\<lambda>request w. (Inr [], w)),
      fs_glob = (\<lambda>d pattern w. demo_globs pattern),
      fs_readlines = (\<lambda>f w. Inr demo_nan_xvg),
      fs_mkdir = (\<lambda>p w. (Inr (), w)),
      fs_rmtree = (\<lambda>p w. (Inr (), w)),
      tar_getmembers = (\<lambda>p w. Inr []),
      tar_extract = (\<lambda>p m d w. (Inr (), w)),
      decode_utf8 = Inr,
      py_float = demo_nan_float,
      div_1000 = map_option (\<lambda>v. v / 1000),
      isfinite = (\<lambda>v. v \<noteq> None),
      plt_savefig = (\<lambda>fname w. (Inr (), w))\<rparr>"

section \<open>Properties\<close>

subsection \<open>Sequencing and the trace\<close>

lemmas monad_defs = bindE_def returnE_def liftE_def plt_def read_world_def call_world_def

lemma emitsI: "(\<And>s. \<exists>evs. trace (snd (m s)) = trace s @ evs \<and> Q (fst (m s)) evs) \<Longrightarrow> emits m Q"
  by (simp add: emits_def)

lemma emitsD: "emits m Q \<Longrightarrow> \<exists>evs. trace (snd (m s)) = trace s @ evs \<and> Q (fst (m s)) evs"
  by (simp add: emits_def)

lemma emits_weaken: "emits m P \<Longrightarrow> (\<And>r evs. P r evs \<Longrightarrow> Q r evs) \<Longrightarrow> emits m Q"
  unfolding emits_def by blast

lemma emits_returnE: "Q (Inr x) [] \<Longrightarrow> emits (returnE x) Q"
  by (simp add: emits_def returnE_def)

lemma emits_liftE: "Q r [] \<Longrightarrow> emits (liftE r) Q"
  by (simp add: emits_def liftE_def)

lemma emits_read_world: "(\<And>r. Q r []) \<Longrightarrow> emits (read_world f) Q"
  by (simp add: emits_def read_world_def)

lemma emits_call_world: "(\<And>r. Q r [ev]) \<Longrightarrow> emits (call_world ev f) Q"
  by (simp add: emits_def call_world_def split: prod.splits)

lemma emits_plt: "Q (Inr ()) [Plt c] \<Longrightarrow> emits (plt c) Q"
  by (simp add: emits_def plt_def)

lemma emits_bindE:
  assumes m: "emits m P"
    and f: "\<And>x. emits (f x) (R x)"
    and raised: "\<And>e evs. P (Inl e) evs \<Longrightarrow> Q (Inl e) evs"
    and returned: "\<And>x evs r evs'. P (Inr x) evs \<Longrightarrow> R x r evs' \<Longrightarrow> Q r (evs @ evs')"
  shows "emits (bindE m f) Q"
proof (rule emitsI)
  fix s
  obtain r s' where ms: "m s = (r, s')" by (cases "m s")
  from emitsD [OF m, of s] ms obtain evs where evs: "trace s' = trace s @ evs" "P r evs"
    by auto
  show "\<exists>evs. trace (snd (bindE m f s)) = trace s @ evs \<and> Q (fst (bindE m f s)) evs"
  proof (cases r)
    case (Inl e)
    with ms evs raised show ?thesis by (auto simp: bindE_def)
  next
    case (Inr x)
    from emitsD [OF f, of x s'] obtain evs' where
      evs': "trace (snd (f x s')) = trace s' @ evs'" "R x (fst (f x s')) evs'"
      by auto
    from Inr ms have "bindE m f s = f x s'" by (simp add: bindE_def)
    with evs evs' returned [of x evs "fst (f x s')" evs'] Inr show ?thesis by auto
  qed
qed

subsection \<open>File discovery\<close>

lemma split_when_not_Nil [simp]: "split_when P s \<noteq> []" "[] \<noteq> split_when P s"
  by (cases s; auto split: list.splits)+

lemma split_sep_inj: "split_sep sep s = split_sep sep t \<Longrightarrow> s = t"
  unfolding split_sep_def
proof (induction s arbitrary: t)
  case Nil
  then show ?case
    by (cases t) (auto split: if_splits list.splits)
next
  case (Cons a s)
  show ?case
  proof (cases t)
    case Nil
    with Cons.prems show ?thesis
      by (auto split: if_splits list.splits)
  next
    case (Cons b t')
    with Cons.prems Cons.IH [of t'] show ?thesis
      by (auto split: if_splits list.splits)
  qed
qed

lemma parts_normcase_inj: "parts_normcase p = parts_normcase q \<Longrightarrow> p = q"
  unfolding parts_normcase_def by (rule split_sep_inj)

lemma split_when_no_sep: "\<forall>c\<in>set n. \<not> P c \<Longrightarrow> split_when P n = [n]"
  by (induction n) auto

lemma split_when_append_sep:
  "P sep \<Longrightarrow> \<forall>c\<in>set n. \<not> P c \<Longrightarrow> split_when P (d @ sep # n) = split_when P d @ [n]"
proof (induction d)
  case Nil
  then show ?case by (simp add: split_when_no_sep)
next
  case (Cons c d)
  then show ?case
    by (auto split: list.splits)
qed

lemma parts_normcase_child:
  "CHR ''/'' \<notin> set n \<Longrightarrow> parts_normcase (d @ CHR ''/'' # n) = parts_normcase d @ [n]"
  unfolding parts_normcase_def split_sep_def
  using split_when_append_sep [of "\<lambda>c. c = CHR ''/''" "CHR ''/''" n d] by auto

lemma append_le_cancel: "(xs @ ys \<le> xs @ zs) = (ys \<le> (zs :: 'a :: linorder list))"
  by (induction xs) auto

lemma child_order:
  assumes "CHR ''/'' \<notin> set n" "CHR ''/'' \<notin> set m"
  shows "(parts_normcase (d @ CHR ''/'' # n) \<le> parts_normcase (d @ CHR ''/'' # m))
    = (d @ CHR ''/'' # n \<le> d @ CHR ''/'' # m)"
proof -
  have "(parts_normcase (d @ CHR ''/'' # n) \<le> parts_normcase (d @ CHR ''/'' # m)) = ([n] \<le> [m])"
    using parts_normcase_child [of n d] parts_normcase_child [of m d] assms
      append_le_cancel [of "parts_normcase d" "[n]" "[m]"] by simp
  also have "\<dots> = (n \<le> m)" by auto
  also have "\<dots> = (CHR ''/'' # n \<le> CHR ''/'' # m)" by auto
  also have "\<dots> = (d @ CHR ''/'' # n \<le> d @ CHR ''/'' # m)"
    by (simp only: append_le_cancel)
  finally show ?thesis .
qed

lemma find_files_sorted_parts:
  "sorted (map parts_normcase (find_files_with_same_pattern globbed))"
  by (simp add: find_files_with_same_pattern_def sorted_paths_def)

lemma find_files_mset: "mset (find_files_with_same_pattern globbed) = mset globbed"
  by (simp add: find_files_with_same_pattern_def sorted_paths_def)

lemma find_files_set: "set (find_files_with_same_pattern globbed) = set globbed"
  by (simp add: find_files_with_same_pattern_def sorted_paths_def)

lemma find_files_perm:
  assumes "mset g1 = mset g2"
  shows "find_files_with_same_pattern g1 = find_files_with_same_pattern g2"
proof -
  have inj: "(parts_normcase k = parts_normcase x) = (k = x)" for k x
    using parts_normcase_inj by auto
  have "sort_key parts_normcase g1 = sort_key parts_normcase g2"
  proof (rule properties_for_sort_key)
    show "mset (sort_key parts_normcase g2) = mset g1" using assms by simp
    show "sorted (map parts_normcase (sort_key parts_normcase g2))" by simp
    fix k assume "k \<in> set (sort_key parts_normcase g2)"
    have "filter (\<lambda>x. k = x) (sort_key parts_normcase g2) = replicate (count (mset g2) k) k"
      using replicate_count_mset_eq_filter_eq [of "sort_key parts_normcase g2" k] by simp
    moreover have "filter (\<lambda>x. k = x) g1 = replicate (count (mset g1) k) k"
      using replicate_count_mset_eq_filter_eq [of g1 k] by simp
    ultimately show "filter (\<lambda>x. parts_normcase k = parts_normcase x) (sort_key parts_normcase g2)
        = filter (\<lambda>x. parts_normcase k = parts_normcase x) g1"
      using assms by (simp add: inj)
  qed
  then show ?thesis by (simp add: find_files_with_same_pattern_def sorted_paths_def)
qed

lemma find_files_same_dir_sorted:
  assumes "\<forall>p\<in>set globbed. \<exists>n. p = d @ ''/'' @ n \<and> CHR ''/'' \<notin> set n"
  shows "sorted (find_files_with_same_pattern globbed)"
proof -
  have "sorted_wrt (\<lambda>p q. parts_normcase p \<le> parts_normcase q) (find_files_with_same_pattern globbed)"
    using find_files_sorted_parts [of globbed] by (simp add: sorted_map)
  then show ?thesis
  proof (rule sorted_wrt_mono_rel [rotated])
    fix p q
    assume "p \<in> set (find_files_with_same_pattern globbed)"
      "q \<in> set (find_files_with_same_pattern globbed)"
      "parts_normcase p \<le> parts_normcase q"
    then have "p \<in> set globbed" "q \<in> set globbed" "parts_normcase p \<le> parts_normcase q"
      by (simp_all add: find_files_set)
    from assms \<open>p \<in> set globbed\<close> obtain n where "p = d @ CHR ''/'' # n" "CHR ''/'' \<notin> set n"
      by auto
    moreover from assms \<open>q \<in> set globbed\<close> obtain m where "q = d @ CHR ''/'' # m" "CHR ''/'' \<notin> set m"
      by auto
    moreover note \<open>parts_normcase p \<le> parts_normcase q\<close>
    ultimately show "p \<le> q" by (simp add: child_order)
  qed
qed

lemma sorted_le_last: "sorted xs \<Longrightarrow> x \<in> set xs \<Longrightarrow> x \<le> last xs"
  by (induction xs) auto

lemma find_files_last_max:
  assumes "q \<in> set globbed"
  shows "parts_normcase q \<le> parts_normcase (last (find_files_with_same_pattern globbed))"
proof -
  let ?ys = "find_files_with_same_pattern globbed"
  from assms find_files_set [of globbed] have ne: "?ys \<noteq> []" and q: "q \<in> set ?ys"
    by auto
  from q have "parts_normcase q \<in> set (map parts_normcase ?ys)" by simp
  with find_files_sorted_parts [of globbed]
  have "parts_normcase q \<le> last (map parts_normcase ?ys)" by (rule sorted_le_last)
  with ne show ?thesis by (simp add: last_map)
qed

lemma path_name_child: "CHR ''/'' \<notin> set n \<Longrightarrow> path_name (d @ CHR ''/'' # n) = n"
proof -
  assume n: "CHR ''/'' \<notin> set n"
  have "d @ CHR ''/'' # n \<noteq> ''.''" by (cases d) auto
  with n show ?thesis by (simp add: path_name_def parts_normcase_child)
qed

lemma cons_le_cancel: "(c # n \<le> c # m) = (n \<le> (m :: 'a :: linorder list))"
  by auto

lemma find_files_last_max_name:
  assumes dir: "\<forall>q\<in>set globbed. \<exists>n. q = d @ CHR ''/'' # n \<and> CHR ''/'' \<notin> set n"
    and q: "q \<in> set globbed"
  shows "q \<le> last (find_files_with_same_pattern globbed)
       \<and> path_name q \<le> path_name (last (find_files_with_same_pattern globbed))"
proof -
  let ?p = "last (find_files_with_same_pattern globbed)"
  from q find_files_set [of globbed] have "find_files_with_same_pattern globbed \<noteq> []"
    by auto
  then have "?p \<in> set globbed"
    using last_in_set [of "find_files_with_same_pattern globbed"] by (simp add: find_files_set)
  with dir obtain m where m: "?p = d @ CHR ''/'' # m" "CHR ''/'' \<notin> set m" by auto
  from dir q obtain n where n: "q = d @ CHR ''/'' # n" "CHR ''/'' \<notin> set n" by auto
  from find_files_last_max [OF q] have "parts_normcase q \<le> parts_normcase ?p" .
  then have "parts_normcase (d @ CHR ''/'' # n) \<le> parts_normcase (d @ CHR ''/'' # m)"
    by (simp only: n m)
  then have le': "d @ CHR ''/'' # n \<le> d @ CHR ''/'' # m"
    by (simp only: child_order [OF n(2) m(2)])
  then have "CHR ''/'' # n \<le> CHR ''/'' # m" by (simp only: append_le_cancel)
  then have "n \<le> m" by (simp only: cons_le_cancel)
  then have "path_name (d @ CHR ''/'' # n) \<le> path_name (d @ CHR ''/'' # m)"
    by (simp only: path_name_child [OF n(2)] path_name_child [OF m(2)])
  with le' show ?thesis by (simp only: n m simp_thms)
qed

text \<open>
  Claim C4. \<^verbatim>\<open>_find_last_tpr_file\<close> globs \<^verbatim>\<open>md_0_*.tpr\<close> in the working directory. With no
  match it raises \<^verbatim>\<open>IndexError\<close> (the index \<^verbatim>\<open>[-1]\<close> on an empty list) and returns
  nothing. With at least one match it returns the name and the path of the last element
  of the sorted list: a match that no other match exceeds in the order of paths and,
  the matches being files of the working directory, in the lexicographic order of the
  path strings and of the file names.
\<close>

theorem find_last_tpr_file_last_match:
  "(let globbed = fs_glob env (gd_path self) ''md_0_*.tpr'' (world s);
        last_tpr = last (find_files_with_same_pattern globbed)
    in (globbed = [] \<longrightarrow> find_last_tpr_file env self s = (Inl IndexError, s))
     \<and> (globbed \<noteq> [] \<longrightarrow>
          find_last_tpr_file env self s = (Inr (path_name last_tpr, last_tpr), s)
        \<and> last_tpr \<in> set globbed
        \<and> (\<forall>q\<in>set globbed. parts_normcase q \<le> parts_normcase last_tpr)
        \<and> ((\<forall>q\<in>set globbed. \<exists>n. q = gd_path self @ CHR ''/'' # n \<and> CHR ''/'' \<notin> set n)
             \<longrightarrow> (\<forall>q\<in>set globbed. q \<le> last_tpr \<and> path_name q \<le> path_name last_tpr))))"
proof -
  define globbed where "globbed = fs_glob env (gd_path self) ''md_0_*.tpr'' (world s)"
  define found where "found = find_files_with_same_pattern globbed"
  have run: "find_last_tpr_file env self s =
    (if found = [] then (Inl IndexError, s) else (Inr (path_name (last found), last found), s))"
    by (simp add: find_last_tpr_file_def bindE_def read_world_def liftE_def returnE_def
        py_last_def globbed_def found_def)
  have empty: "(found = []) = (globbed = [])"
    using find_files_set [of globbed] by (auto simp: found_def)
  have mem: "globbed \<noteq> [] \<Longrightarrow> last found \<in> set globbed"
    using last_in_set [of found] empty by (simp add: found_def find_files_set)
  have max: "\<forall>q\<in>set globbed. parts_normcase q \<le> parts_normcase (last found)"
    using find_files_last_max [of _ globbed] by (simp add: found_def)
  have name: "(\<forall>q\<in>set globbed. \<exists>n. q = gd_path self @ CHR ''/'' # n \<and> CHR ''/'' \<notin> set n)
     \<longrightarrow> (\<forall>q\<in>set globbed. q \<le> last found \<and> path_name q \<le> path_name (last found))"
    using find_files_last_max_name [of globbed "gd_path self"] unfolding found_def by blast
  have "(globbed = [] \<longrightarrow> find_last_tpr_file env self s = (Inl IndexError, s))
     \<and> (globbed \<noteq> [] \<longrightarrow>
          find_last_tpr_file env self s = (Inr (path_name (last found), last found), s)
        \<and> last found \<in> set globbed
        \<and> (\<forall>q\<in>set globbed. parts_normcase q \<le> parts_normcase (last found))
        \<and> ((\<forall>q\<in>set globbed. \<exists>n. q = gd_path self @ CHR ''/'' # n \<and> CHR ''/'' \<notin> set n)
             \<longrightarrow> (\<forall>q\<in>set globbed. q \<le> last found \<and> path_name q \<le> path_name (last found))))"
    using run empty mem max name by simp
  then show ?thesis
    by (simp only: Let_def globbed_def found_def)
qed

theorem find_last_tpr_file_last_match_witness:
  "find_last_tpr_file
     (demo_env (\<lambda>pattern. if pattern = ''md_0_*.tpr''
                           then [''w/md_0_2.tpr'', ''w/md_0_10.tpr'', ''w/md_0_1.tpr''] else [])
               (\<lambda>f. None))
     demo_gromacs demo_state
   = (Inr (''md_0_2.tpr'', ''w/md_0_2.tpr''), demo_state)
 \<and> find_last_tpr_file (demo_env (\<lambda>pattern. []) (\<lambda>f. None)) demo_gromacs demo_state
   = (Inl IndexError, demo_state)"
  using
    find_last_tpr_file_last_match [of
      "demo_env (\<lambda>pattern. if pattern = ''md_0_*.tpr''
                           then [''w/md_0_2.tpr'', ''w/md_0_10.tpr'', ''w/md_0_1.tpr''] else [])
               (\<lambda>f. None)" demo_gromacs demo_state]
    find_last_tpr_file_last_match [of "demo_env (\<lambda>pattern. []) (\<lambda>f. None)" demo_gromacs demo_state]
  by (simp add: demo_env_def demo_gromacs_def Let_def find_files_with_same_pattern_def
      sorted_paths_def parts_normcase_def split_sep_def path_name_def)

subsection \<open>The order of the discovered files\<close>

text \<open>
  Claim C5, as amended. \<^verbatim>\<open>find_files_with_same_pattern\<close> returns the matches sorted by
  the order of \<^verbatim>\<open>pathlib\<close> paths, which compares the lists of components: the result is
  sorted by that key, holds exactly the matches, does not depend on the order in which
  the file system enumerates them, and is empty when nothing matches. When all matches
  are entries of one directory \<open>d\<close>, as with every pattern the program uses, the result is
  also sorted as a list of path strings.
\<close>

theorem find_files_with_same_pattern_path_order:
  "sorted (map parts_normcase (find_files_with_same_pattern globbed))
 \<and> mset (find_files_with_same_pattern globbed) = mset globbed
 \<and> (mset globbed' = mset globbed
      \<longrightarrow> find_files_with_same_pattern globbed' = find_files_with_same_pattern globbed)
 \<and> find_files_with_same_pattern [] = []
 \<and> ((\<forall>p\<in>set globbed. \<exists>n. p = d @ CHR ''/'' # n \<and> CHR ''/'' \<notin> set n)
      \<longrightarrow> sorted (find_files_with_same_pattern globbed))"
  using find_files_sorted_parts [of globbed] find_files_mset [of globbed]
    find_files_perm [of globbed' globbed] find_files_same_dir_sorted [of globbed d]
  by (simp add: find_files_with_same_pattern_def sorted_paths_def)

theorem find_files_with_same_pattern_path_order_witness:
  "find_files_with_same_pattern [''w/b.tpr'', ''w/a.tpr''] = [''w/a.tpr'', ''w/b.tpr'']
 \<and> find_files_with_same_pattern [''w/a.tpr'', ''w/b.tpr''] = [''w/a.tpr'', ''w/b.tpr'']
 \<and> sorted (find_files_with_same_pattern [''w/b.tpr'', ''w/a.tpr''])"
proof -
  have dir: "\<forall>p\<in>set [''w/b.tpr'', ''w/a.tpr'']. \<exists>n. p = ''w'' @ CHR ''/'' # n \<and> CHR ''/'' \<notin> set n"
    by simp
  have perm: "mset [''w/a.tpr'', ''w/b.tpr''] = mset [''w/b.tpr'', ''w/a.tpr'']"
    by simp
  have val: "find_files_with_same_pattern [''w/b.tpr'', ''w/a.tpr''] = [''w/a.tpr'', ''w/b.tpr'']"
    by (simp add: find_files_with_same_pattern_def sorted_paths_def parts_normcase_def split_sep_def)
  from find_files_with_same_pattern_path_order
         [of "[''w/b.tpr'', ''w/a.tpr'']" "[''w/a.tpr'', ''w/b.tpr'']" "''w''"] dir perm val
  show ?thesis by simp
qed

text \<open>
  Claim C5 as stated fails for a pattern that reaches into subdirectories: with the
  matches \<^verbatim>\<open>d/a-b/c\<close> and \<^verbatim>\<open>d/a/b\<close> the component \<^verbatim>\<open>a\<close> comes before \<^verbatim>\<open>a-b\<close>, while
  the string \<^verbatim>\<open>d/a-b/c\<close> comes before \<^verbatim>\<open>d/a/b\<close>.
\<close>

theorem find_files_with_same_pattern_string_order_counterexample:
  "find_files_with_same_pattern [''d/a-b/c'', ''d/a/b''] = [''d/a/b'', ''d/a-b/c'']
 \<and> \<not> sorted (find_files_with_same_pattern [''d/a-b/c'', ''d/a/b''])"
  by (simp add: find_files_with_same_pattern_def sorted_paths_def parts_normcase_def split_sep_def)

subsection \<open>The commands of the energy reports\<close>

lemma minimization_trace:
  "trace (snd (generate_minimization_data env self s)) =
     trace s @ [ContainersRun (container_call self
        ''echo 10 0 | gmx energy -f em.edr -o potential.xvg'' (Some True))]"
  by (simp add: generate_minimization_data_def run_gromacs_container_def call_world_def Let_def
      bindE_def liftE_def sh_def CONTAINER_WORK_DIR_def container_call_def
      split: prod.splits sum.splits)

lemma nvt_trace:
  "trace (snd (generate_nvt_data env self s)) =
     trace s @ [ContainersRun (container_call self
        ''echo 16 0 | gmx energy -f nvt.edr -o temperature.xvg'' None)]"
  by (simp add: generate_nvt_data_def run_gromacs_container_def call_world_def Let_def
      bindE_def liftE_def sh_def CONTAINER_WORK_DIR_def container_call_def
      split: prod.splits sum.splits)

lemma npt_trace:
  "\<exists>rest. trace (snd (generate_npt_data env self s)) =
       trace s @ ContainersRun (container_call self
          ''echo 18 0 | gmx energy -f npt.edr -o pressure.xvg'' None) # rest
     \<and> (rest = [] \<or> rest = [ContainersRun (container_call self
          ''echo 24 0 | gmx energy -f npt.edr -o density.xvg'' None)])
     \<and> (returned (fst (generate_npt_data env self s)) \<longrightarrow> rest \<noteq> [])"
  by (simp add: generate_npt_data_def run_gromacs_container_def call_world_def Let_def
      bindE_def liftE_def returnE_def sh_def CONTAINER_WORK_DIR_def container_call_def returned_def
      split: prod.splits sum.splits)

text \<open>
  Claim C7. Each energy-report operation hands Docker one shell command with the
  fixed selector pair and file names: minimization \<^verbatim>\<open>10 0\<close>, \<^verbatim>\<open>em.edr\<close>,
  \<^verbatim>\<open>potential.xvg\<close>; NVT \<^verbatim>\<open>16 0\<close>, \<^verbatim>\<open>nvt.edr\<close>, \<^verbatim>\<open>temperature.xvg\<close>; NPT first
  \<^verbatim>\<open>18 0\<close>, \<^verbatim>\<open>npt.edr\<close>, \<^verbatim>\<open>pressure.xvg\<close>, then, once the pressure call has returned,
  \<^verbatim>\<open>24 0\<close>, \<^verbatim>\<open>npt.edr\<close>, \<^verbatim>\<open>density.xvg\<close>. None of them makes any other call.
\<close>

theorem energy_report_commands:
  "trace (snd (generate_minimization_data env self s)) =
     trace s @ [ContainersRun (container_call self
        ''echo 10 0 | gmx energy -f em.edr -o potential.xvg'' (Some True))]
 \<and> trace (snd (generate_nvt_data env self s)) =
     trace s @ [ContainersRun (container_call self
        ''echo 16 0 | gmx energy -f nvt.edr -o temperature.xvg'' None)]
 \<and> (\<exists>rest. trace (snd (generate_npt_data env self s)) =
       trace s @ ContainersRun (container_call self
          ''echo 18 0 | gmx energy -f npt.edr -o pressure.xvg'' None) # rest
     \<and> (rest = [] \<or> rest = [ContainersRun (container_call self
          ''echo 24 0 | gmx energy -f npt.edr -o density.xvg'' None)])
     \<and> (returned (fst (generate_npt_data env self s)) \<longrightarrow> rest \<noteq> []))"
  using minimization_trace [of env self s] nvt_trace [of env self s] npt_trace [of env self s]
  by simp

theorem energy_report_commands_witness:
  "map (\<lambda>e. case e of ContainersRun c \<Rightarrow> last (run_command c) | _ \<Rightarrow> [])
     (trace (snd (generate_npt_data (demo_env (\<lambda>p. []) (\<lambda>f. None)) demo_gromacs demo_state)))
   = [''echo 18 0 | gmx energy -f npt.edr -o pressure.xvg'',
      ''echo 24 0 | gmx energy -f npt.edr -o density.xvg'']
 \<and> returned (fst (generate_npt_data (demo_env (\<lambda>p. []) (\<lambda>f. None)) demo_gromacs demo_state))"
proof -
  have ok: "returned (fst (generate_npt_data (demo_env (\<lambda>p. []) (\<lambda>f. None)) demo_gromacs demo_state))"
    by (simp add: generate_npt_data_def run_gromacs_container_def call_world_def Let_def
        bindE_def liftE_def returnE_def demo_env_def returned_def)
  with energy_report_commands [of "demo_env (\<lambda>p. []) (\<lambda>f. None)" demo_gromacs demo_state]
  show ?thesis
    by (auto simp: demo_state_def container_call_def)
qed

subsection \<open>Charts\<close>

lemma py_first_Cons: "x \<noteq> [] \<Longrightarrow> py_first x = Inr (hd x)"
  by (cases x) (simp_all add: py_first_def)

lemma py_last_Cons: "x \<noteq> [] \<Longrightarrow> py_last x = Inr (last x)"
  by (simp add: py_last_def)

lemma plot_data_returns:
  assumes "x \<noteq> []" "length x = length y" "3 \<le> length titles"
    "isfinite env (hd x)" "isfinite env (last x)"
  shows "plot_data env x y titles s =
           (Inr Figure, s\<lparr>trace := trace s @ map Plt (plot_data_calls x y titles)\<rparr>)"
  using assms
  by (auto simp: plot_data_def plot_data_calls_def py_nth_def py_first_Cons py_last_Cons monad_defs)

lemma plot_data_not_finite:
  assumes "x \<noteq> []" "length x = length y" "3 \<le> length titles"
    "\<not> (isfinite env (hd x) \<and> isfinite env (last x))"
  shows "plot_data env x y titles s =
           (Inl ValueError,
            s\<lparr>trace := trace s @ map Plt
               ([Subplots, AxPlot x y ''black'' (7 / 10),
                 Xlabel (titles ! 0), Ylabel (titles ! 1), Title (titles ! 2)]
                @ (if length titles = 4 then [Legend (last titles)] else [])
                @ [Xlim (hd x) (last x)])\<rparr>)"
  using assms
  by (auto simp: plot_data_def py_nth_def py_first_Cons py_last_Cons monad_defs)

lemma plot_data_Inr:
  assumes "plot_data env x y titles s = (Inr fig, s')"
  shows "x \<noteq> [] \<and> length x = length y \<and> 3 \<le> length titles
       \<and> isfinite env (hd x) \<and> isfinite env (last x)
       \<and> s' = s\<lparr>trace := trace s @ map Plt (plot_data_calls x y titles)\<rparr>"
proof -
  have x: "x \<noteq> []"
    using assms
    by (auto simp: plot_data_def py_nth_def py_first_def py_last_def monad_defs
        split: if_splits)
  have len: "length x = length y"
    using assms by (auto simp: plot_data_def monad_defs split: if_splits)
  have titles: "3 \<le> length titles"
    using assms len by (auto simp: plot_data_def py_nth_def monad_defs split: if_splits)
  have fin: "isfinite env (hd x) \<and> isfinite env (last x)"
    using assms plot_data_not_finite [OF x len titles, of env s] by auto
  with plot_data_returns [OF x len titles, of env s] assms x len titles show ?thesis by simp
qed

lemma plot_data_empty_x: "\<not> returned (fst (plot_data env [] y titles s))"
  by (simp add: plot_data_def py_nth_def py_first_def py_last_def returned_def monad_defs)

lemma plot_data_empty_x_IndexError:
  assumes "3 \<le> length titles"
  shows "plot_data env [] [] titles s =
     (Inl IndexError,
      s\<lparr>trace := trace s @ map Plt ([Subplots, AxPlot [] [] ''black'' (7 / 10),
         Xlabel (titles ! 0), Ylabel (titles ! 1), Title (titles ! 2)]
         @ (if length titles = 4 then [Legend (last titles)] else []))\<rparr>)"
  using assms
  by (auto simp: plot_data_def py_nth_def py_first_def py_last_def monad_defs)

lemma read_xvg_files_array:
  assumes "read_xvg_files env file_path s = (Inr a, s')"
  shows "s' = s \<and> (\<exists>data. np_array data = Inr a)"
  using assms
  by (auto simp: read_xvg_files_def monad_defs split: sum.splits)

lemma nd_column_np_array:
  assumes "np_array data = Inr a" "nd_column a j = Inr c"
  shows "data \<noteq> [] \<and> c = map (\<lambda>r. r ! j) data"
  using assms
  by (auto simp: np_array_def nd_column_def split: list.splits if_splits)

lemma wrapper_trace:
  assumes run: "bindE (read_xvg_files env file_path) (\<lambda>a.
                bindE (liftE (nd_column a 0)) (\<lambda>c0.
                bindE (liftE (nd_column a 1)) (\<lambda>c1.
                bindE (plot_data env (g c0) c1 titles) (\<lambda>_.
                bindE (plt suptitle) (\<lambda>_. savefig env fname bbox pad dpi))))) s = (Inr u, s')"
    and g: "\<And>c. length (g c) = length c"
  shows "\<exists>x y. x \<noteq> [] \<and> length x = length y
           \<and> trace s' = trace s @ map Plt
               (plot_data_calls x y titles @ [suptitle, Savefig fname bbox pad dpi])"
proof -
  from run obtain a s1 where a: "read_xvg_files env file_path s = (Inr a, s1)"
    by (auto simp: bindE_def split: prod.splits sum.splits)
  with read_xvg_files_array [OF a] obtain data where s1: "s1 = s" and data: "np_array data = Inr a"
    by auto
  from run a obtain c0 where c0: "nd_column a 0 = Inr c0"
    by (cases "nd_column a 0") (auto simp: bindE_def liftE_def)
  from run a c0 obtain c1 where c1: "nd_column a 1 = Inr c1"
    by (cases "nd_column a 1") (auto simp: bindE_def liftE_def)
  from run a s1 c0 c1 obtain fig s2 where
    plot: "plot_data env (g c0) c1 titles s = (Inr fig, s2)"
    and rest: "bindE (plt suptitle) (\<lambda>_. savefig env fname bbox pad dpi) s2 = (Inr u, s')"
    by (auto simp: bindE_def liftE_def split: prod.splits sum.splits)
  from plot_data_Inr [OF plot] have ne: "g c0 \<noteq> []" and len: "length (g c0) = length c1"
    and s2: "trace s2 = trace s @ map Plt (plot_data_calls (g c0) c1 titles)"
    by simp_all
  from rest have "trace s' = trace s2 @ [Plt suptitle, Plt (Savefig fname bbox pad dpi)]"
    by (auto simp: savefig_def monad_defs split: prod.splits)
  with s2 have "trace s' = trace s @ map Plt
      (plot_data_calls (g c0) c1 titles @ [suptitle, Savefig fname bbox pad dpi])"
    by simp
  with ne len show ?thesis by blast
qed

lemma plot_energy_minimization_trace:
  assumes "plot_energy_minimization env self s = (Inr u, s')"
  shows "\<exists>x y. x \<noteq> [] \<and> length x = length y
     \<and> trace s' = trace s @ map Plt
          (plot_data_calls x y [''Time $(ns)$'', ''Potential Energy $(kJ/mol)$'', pl_protein self]
           @ [Suptitle ''Energy Minimization'' 20 1,
              Savefig (images_path self @ ''minimization.png'') ''tight'' (1 / 10) 300])"
  by (rule wrapper_trace [where g = "map (div_1000 env)"])
    (use assms in \<open>simp_all add: plot_energy_minimization_def\<close>)

lemma plot_temperature_trace:
  assumes "plot_temperature env self s = (Inr u, s')"
  shows "\<exists>x y. x \<noteq> [] \<and> length x = length y
     \<and> trace s' = trace s @ map Plt
          (plot_data_calls x y [''Time $(ps)$'', ''Potential Energy $(K)$'',
                                pl_protein self @ '', NVT Equilibration'']
           @ [Suptitle ''Temperature'' 20 1,
              Savefig (images_path self @ ''temperature.png'') ''tight'' (1 / 10) 300])"
  by (rule wrapper_trace [where g = "\<lambda>c. c"])
    (use assms in \<open>simp_all add: plot_temperature_def\<close>)

lemma plot_pressure_trace:
  assumes "plot_pressure env self s = (Inr u, s')"
  shows "\<exists>x y. x \<noteq> [] \<and> length x = length y
     \<and> trace s' = trace s @ map Plt
          (plot_data_calls x y [''Time $(ps)$'', ''Pressure $(bar)$'',
                                pl_protein self @ '', NPT Equilibration'']
           @ [Suptitle ''Pressure'' 20 1,
              Savefig (images_path self @ ''pressure.png'') ''tight'' (1 / 10) 300])"
  by (rule wrapper_trace [where g = "\<lambda>c. c"])
    (use assms in \<open>simp_all add: plot_pressure_def\<close>)

lemma plot_density_trace:
  assumes "plot_density env self s = (Inr u, s')"
  shows "\<exists>x y. x \<noteq> [] \<and> length x = length y
     \<and> trace s' = trace s @ map Plt
          (plot_data_calls x y [''Time $(ps)$'', ''Density $(kg/m^{3})$'',
                                pl_protein self @ '', NPT Equilibration'']
           @ [Suptitle ''Density'' 20 1,
              Savefig (images_path self @ ''density.png'') ''tight'' (1 / 10) 300])"
  by (rule wrapper_trace [where g = "\<lambda>c. c"])
    (use assms in \<open>simp_all add: plot_density_def\<close>)

text \<open>
  Claim C8, as amended. For a non-empty \<open>x\<close> whose first and last values are finite, a \<open>y\<close>
  of the same length and a list of labels with the three entries that \<^verbatim>\<open>plot_data\<close>
  documents (a fourth is the legend), \<^verbatim>\<open>plot_data\<close> returns the figure after exactly these
  calls: one \<^verbatim>\<open>ax.plot\<close> with colour black and line width 0.7, the labels and the title,
  \<^verbatim>\<open>xlim\<close> from the first to the last value of \<open>x\<close>, \<^verbatim>\<open>minorticks_on\<close>, and \<^verbatim>\<open>tick_params\<close>
  with direction \<^verbatim>\<open>in\<close> on both axes, major and minor ticks, right and top included.
  When the first or the last value of \<open>x\<close> is not finite, \<^verbatim>\<open>xlim\<close> raises \<^verbatim>\<open>ValueError\<close> and
  the two tick calls are not made. Each of the four wrappers that returns has made the
  calls of \<^verbatim>\<open>plot_data\<close>, then its super-title, then one \<^verbatim>\<open>savefig\<close> with a tight bounding
  box and 300 dots per inch, which returned.
\<close>

theorem plot_data_style:
  "(x \<noteq> [] \<and> length x = length y \<and> 3 \<le> length titles
      \<and> isfinite env (hd x) \<and> isfinite env (last x) \<longrightarrow>
      plot_data env x y titles s =
        (Inr Figure,
         s\<lparr>trace := trace s @ map Plt
            ([Subplots, AxPlot x y ''black'' (7 / 10),
              Xlabel (titles ! 0), Ylabel (titles ! 1), Title (titles ! 2)]
             @ (if length titles = 4 then [Legend (last titles)] else [])
             @ [Xlim (hd x) (last x), MinorticksOn,
                TickParams ''both'' ''both'' ''in'' True True])\<rparr>))
 \<and> (x \<noteq> [] \<and> length x = length y \<and> 3 \<le> length titles
      \<and> \<not> (isfinite env (hd x) \<and> isfinite env (last x)) \<longrightarrow>
      plot_data env x y titles s =
        (Inl ValueError,
         s\<lparr>trace := trace s @ map Plt
            ([Subplots, AxPlot x y ''black'' (7 / 10),
              Xlabel (titles ! 0), Ylabel (titles ! 1), Title (titles ! 2)]
             @ (if length titles = 4 then [Legend (last titles)] else [])
             @ [Xlim (hd x) (last x)])\<rparr>))
 \<and> (returned (fst (plot_energy_minimization env self s)) \<longrightarrow>
      (\<exists>x y. trace (snd (plot_energy_minimization env self s)) = trace s @ map Plt
          (plot_data_calls x y [''Time $(ns)$'', ''Potential Energy $(kJ/mol)$'', pl_protein self]
           @ [Suptitle ''Energy Minimization'' 20 1,
              Savefig (images_path self @ ''minimization.png'') ''tight'' (1 / 10) 300])))
 \<and> (returned (fst (plot_temperature env self s)) \<longrightarrow>
      (\<exists>x y. trace (snd (plot_temperature env self s)) = trace s @ map Plt
          (plot_data_calls x y [''Time $(ps)$'', ''Potential Energy $(K)$'',
                                pl_protein self @ '', NVT Equilibration'']
           @ [Suptitle ''Temperature'' 20 1,
              Savefig (images_path self @ ''temperature.png'') ''tight'' (1 / 10) 300])))
 \<and> (returned (fst (plot_pressure env self s)) \<longrightarrow>
      (\<exists>x y. trace (snd (plot_pressure env self s)) = trace s @ map Plt
          (plot_data_calls x y [''Time $(ps)$'', ''Pressure $(bar)$'',
                                pl_protein self @ '', NPT Equilibration'']
           @ [Suptitle ''Pressure'' 20 1,
              Savefig (images_path self @ ''pressure.png'') ''tight'' (1 / 10) 300])))
 \<and> (returned (fst (plot_density env self s)) \<longrightarrow>
      (\<exists>x y. trace (snd (plot_density env self s)) = trace s @ map Plt
          (plot_data_calls x y [''Time $(ps)$'', ''Density $(kg/m^{3})$'',
                                pl_protein self @ '', NPT Equilibration'']
           @ [Suptitle ''Density'' 20 1,
              Savefig (images_path self @ ''density.png'') ''tight'' (1 / 10) 300])))"
proof -
  have ret: "returned (fst p) \<Longrightarrow> \<exists>u. p = (Inr u, snd p)" for p :: "(py_error + unit) \<times> ('w, 'f) state"
    by (cases p; cases "fst p") (auto simp: returned_def)
  have 1: "(x \<noteq> [] \<and> length x = length y \<and> 3 \<le> length titles
        \<and> isfinite env (hd x) \<and> isfinite env (last x) \<longrightarrow>
        plot_data env x y titles s =
          (Inr Figure,
           s\<lparr>trace := trace s @ map Plt
              ([Subplots, AxPlot x y ''black'' (7 / 10),
                Xlabel (titles ! 0), Ylabel (titles ! 1), Title (titles ! 2)]
               @ (if length titles = 4 then [Legend (last titles)] else [])
               @ [Xlim (hd x) (last x), MinorticksOn,
                  TickParams ''both'' ''both'' ''in'' True True])\<rparr>))"
    using plot_data_returns [of x y titles env s] by (simp add: plot_data_calls_def)
  have 2: "(x \<noteq> [] \<and> length x = length y \<and> 3 \<le> length titles
        \<and> \<not> (isfinite env (hd x) \<and> isfinite env (last x)) \<longrightarrow>
        plot_data env x y titles s =
          (Inl ValueError,
           s\<lparr>trace := trace s @ map Plt
              ([Subplots, AxPlot x y ''black'' (7 / 10),
                Xlabel (titles ! 0), Ylabel (titles ! 1), Title (titles ! 2)]
               @ (if length titles = 4 then [Legend (last titles)] else [])
               @ [Xlim (hd x) (last x)])\<rparr>))"
    using plot_data_not_finite [of x y titles env s] by blast
  have 3: "(returned (fst (plot_energy_minimization env self s)) \<longrightarrow>
        (\<exists>x y. trace (snd (plot_energy_minimization env self s)) = trace s @ map Plt
            (plot_data_calls x y [''Time $(ns)$'', ''Potential Energy $(kJ/mol)$'', pl_protein self]
             @ [Suptitle ''Energy Minimization'' 20 1,
                Savefig (images_path self @ ''minimization.png'') ''tight'' (1 / 10) 300])))"
    using plot_energy_minimization_trace [of env self s] ret [of "plot_energy_minimization env self s"]
    by blast
  have 4: "(returned (fst (plot_temperature env self s)) \<longrightarrow>
        (\<exists>x y. trace (snd (plot_temperature env self s)) = trace s @ map Plt
            (plot_data_calls x y [''Time $(ps)$'', ''Potential Energy $(K)$'',
                                  pl_protein self @ '', NVT Equilibration'']
             @ [Suptitle ''Temperature'' 20 1,
                Savefig (images_path self @ ''temperature.png'') ''tight'' (1 / 10) 300])))"
    using plot_temperature_trace [of env self s] ret [of "plot_temperature env self s"]
    by blast
  have 5: "(returned (fst (plot_pressure env self s)) \<longrightarrow>
        (\<exists>x y. trace (snd (plot_pressure env self s)) = trace s @ map Plt
            (plot_data_calls x y [''Time $(ps)$'', ''Pressure $(bar)$'',
                                  pl_protein self @ '', NPT Equilibration'']
             @ [Suptitle ''Pressure'' 20 1,
                Savefig (images_path self @ ''pressure.png'') ''tight'' (1 / 10) 300])))"
    using plot_pressure_trace [of env self s] ret [of "plot_pressure env self s"]
    by blast
  have 6: "(returned (fst (plot_density env self s)) \<longrightarrow>
        (\<exists>x y. trace (snd (plot_density env self s)) = trace s @ map Plt
            (plot_data_calls x y [''Time $(ps)$'', ''Density $(kg/m^{3})$'',
                                  pl_protein self @ '', NPT Equilibration'']
             @ [Suptitle ''Density'' 20 1,
                Savefig (images_path self @ ''density.png'') ''tight'' (1 / 10) 300])))"
    using plot_density_trace [of env self s] ret [of "plot_density env self s"]
    by blast
  from 1 2 3 4 5 6 show ?thesis by (intro conjI)
qed

lemmas demo_defs = demo_env_def demo_state_def demo_gromacs_def demo_plots_def demo_files_def
  demo_globs_def demo_report_def demo_xvg_def demo_float_def

lemmas reader_defs = read_xvg_files_def is_comment_def startswith_def py_split_def py_isspace_def
  np_array_def nd_column_def

lemmas plot_defs = plot_data_def savefig_def py_nth_def py_first_def py_last_def

theorem plot_data_style_witness:
  "plot_data (demo_env demo_globs demo_files) [0, 1] [1, 2] [''t'', ''E'', ''1abc''] demo_state =
     (Inr Figure,
      \<lparr>world = (), trace = map Plt
         [Subplots, AxPlot [0, 1] [1, 2] ''black'' (7 / 10), Xlabel ''t'', Ylabel ''E'',
          Title ''1abc'', Xlim 0 1, MinorticksOn,
          TickParams ''both'' ''both'' ''in'' True True]\<rparr>)
 \<and> plot_data demo_nan_env [Some 0, None] [Some 1, Some 2] [''t'', ''E'', ''1abc'']
      \<lparr>world = (), trace = []\<rparr> =
     (Inl ValueError,
      \<lparr>world = (), trace = map Plt
         [Subplots, AxPlot [Some 0, None] [Some 1, Some 2] ''black'' (7 / 10), Xlabel ''t'',
          Ylabel ''E'', Title ''1abc'', Xlim (Some 0) None]\<rparr>)
 \<and> returned (fst (plot_energy_minimization (demo_env demo_globs demo_files) demo_plots demo_state))
 \<and> returned (fst (plot_temperature (demo_env demo_globs demo_files) demo_plots demo_state))
 \<and> returned (fst (plot_pressure (demo_env demo_globs demo_files) demo_plots demo_state))
 \<and> returned (fst (plot_density (demo_env demo_globs demo_files) demo_plots demo_state))
 \<and> (\<exists>x y. trace (snd (plot_density (demo_env demo_globs demo_files) demo_plots demo_state)) =
        map Plt (plot_data_calls x y [''Time $(ps)$'', ''Density $(kg/m^{3})$'',
                                      ''1abc, NPT Equilibration'']
          @ [Suptitle ''Density'' 20 1, Savefig ''w/images/density.png'' ''tight'' (1 / 10) 300]))"
proof -
  have 1: "returned (fst (plot_energy_minimization (demo_env demo_globs demo_files) demo_plots demo_state))"
    by (simp add: plot_energy_minimization_def demo_defs reader_defs plot_defs monad_defs returned_def)
  have 2: "returned (fst (plot_temperature (demo_env demo_globs demo_files) demo_plots demo_state))"
    by (simp add: plot_temperature_def demo_defs reader_defs plot_defs monad_defs returned_def)
  have 3: "returned (fst (plot_pressure (demo_env demo_globs demo_files) demo_plots demo_state))"
    by (simp add: plot_pressure_def demo_defs reader_defs plot_defs monad_defs returned_def)
  have 4: "returned (fst (plot_density (demo_env demo_globs demo_files) demo_plots demo_state))"
    by (simp add: plot_density_def demo_defs reader_defs plot_defs monad_defs returned_def)
  have 5: "[0, 1 :: rat] \<noteq> [] \<and> length [0, 1 :: rat] = length [1, 2 :: rat]
             \<and> 3 \<le> length [''t'', ''E'', ''1abc'']
             \<and> isfinite (demo_env demo_globs demo_files) (hd [0, 1])
             \<and> isfinite (demo_env demo_globs demo_files) (last [0, 1])"
    by (simp add: demo_env_def)
  have 6: "[Some 0, None :: rat option] \<noteq> []
             \<and> length [Some 0, None :: rat option] = length [Some 1, Some 2 :: rat option]
             \<and> 3 \<le> length [''t'', ''E'', ''1abc'']
             \<and> \<not> (isfinite demo_nan_env (hd [Some 0, None])
                  \<and> isfinite demo_nan_env (last [Some 0, None]))"
    by (simp add: demo_nan_env_def)
  from plot_data_style [of "[0, 1]" "[1, 2]" "[''t'', ''E'', ''1abc'']"
         "demo_env demo_globs demo_files" demo_state demo_plots] 1 2 3 4 5
  have a: "plot_data (demo_env demo_globs demo_files) [0, 1] [1, 2] [''t'', ''E'', ''1abc'']
        demo_state =
     (Inr Figure,
      \<lparr>world = (), trace = map Plt
         [Subplots, AxPlot [0, 1] [1, 2] ''black'' (7 / 10), Xlabel ''t'', Ylabel ''E'',
          Title ''1abc'', Xlim 0 1, MinorticksOn,
          TickParams ''both'' ''both'' ''in'' True True]\<rparr>)
    \<and> (\<exists>x y. trace (snd (plot_density (demo_env demo_globs demo_files) demo_plots demo_state)) =
        map Plt (plot_data_calls x y [''Time $(ps)$'', ''Density $(kg/m^{3})$'',
                                      ''1abc, NPT Equilibration'']
          @ [Suptitle ''Density'' 20 1, Savefig ''w/images/density.png'' ''tight'' (1 / 10) 300]))"
    by (simp add: demo_state_def demo_plots_def)
  from plot_data_style [of "[Some 0, None]" "[Some 1, Some 2]" "[''t'', ''E'', ''1abc'']"
         demo_nan_env "\<lparr>world = (), trace = []\<rparr>"] 6
  have b: "plot_data demo_nan_env [Some 0, None] [Some 1, Some 2] [''t'', ''E'', ''1abc'']
      \<lparr>world = (), trace = []\<rparr> =
     (Inl ValueError,
      \<lparr>world = (), trace = map Plt
         [Subplots, AxPlot [Some 0, None] [Some 1, Some 2] ''black'' (7 / 10), Xlabel ''t'',
          Ylabel ''E'', Title ''1abc'', Xlim (Some 0) None]\<rparr>)"
    by simp
  from a b 1 2 3 4 show ?thesis by blast
qed

text \<open>
  Claim C8 as stated fails for a series that starts with \<^verbatim>\<open>nan\<close>, which \<^verbatim>\<open>float\<close> reads
  from a table like any other token: the series are not empty and of equal length, the
  three labels are there, and \<^verbatim>\<open>plot_data\<close> raises \<^verbatim>\<open>ValueError\<close> at \<^verbatim>\<open>xlim\<close> instead of
  producing the plot; \<^verbatim>\<open>plot_temperature\<close> on the table with the lines \<^verbatim>\<open>nan 1\<close> and
  \<^verbatim>\<open>1 2\<close> fails in the same way and saves nothing.
\<close>

theorem plot_data_nan_counterexample:
  "demo_nan_float ''nan'' = Some None
 \<and> plot_data demo_nan_env [None, Some 1] [Some 1, Some 2] [''t'', ''T'', ''1abc'']
      \<lparr>world = (), trace = []\<rparr> =
     (Inl ValueError,
      \<lparr>world = (), trace = map Plt
         [Subplots, AxPlot [None, Some 1] [Some 1, Some 2] ''black'' (7 / 10), Xlabel ''t'',
          Ylabel ''T'', Title ''1abc'', Xlim None (Some 1)]\<rparr>)
 \<and> plot_temperature demo_nan_env demo_plots \<lparr>world = (), trace = []\<rparr> =
     (Inl ValueError,
      \<lparr>world = (), trace = map Plt
         [Subplots, AxPlot [None, Some 1] [Some 1, Some 2] ''black'' (7 / 10),
          Xlabel ''Time $(ps)$'', Ylabel ''Potential Energy $(K)$'',
          Title ''1abc, NVT Equilibration'', Xlim None (Some 1)]\<rparr>)"
  by (simp add: plot_temperature_def demo_nan_env_def demo_nan_float_def demo_nan_xvg_def
      demo_plots_def reader_defs plot_defs monad_defs)

text \<open>
  Claim C9. With an empty \<open>x\<close>, \<^verbatim>\<open>plot_data\<close> never returns a figure; when \<open>y\<close> is empty too
  and the labels are there, it raises \<^verbatim>\<open>IndexError\<close> at \<^verbatim>\<open>x[0]\<close>, after the title and the
  legend and before \<^verbatim>\<open>xlim\<close> is called. With a non-empty \<open>x\<close>, \<^verbatim>\<open>x[0]\<close> and \<^verbatim>\<open>x[-1]\<close> are
  in bounds: they are the first and the last element.
\<close>

theorem plot_data_empty_x_fails:
  "\<not> returned (fst (plot_data env [] y titles s))
 \<and> (3 \<le> length titles \<longrightarrow>
      plot_data env [] [] titles s =
        (Inl IndexError,
         s\<lparr>trace := trace s @ map Plt
            ([Subplots, AxPlot [] [] ''black'' (7 / 10),
              Xlabel (titles ! 0), Ylabel (titles ! 1), Title (titles ! 2)]
             @ (if length titles = 4 then [Legend (last titles)] else []))\<rparr>))
 \<and> (x \<noteq> [] \<longrightarrow> py_first x = Inr (hd x) \<and> py_last x = Inr (last x))"
  using plot_data_empty_x [of env y titles s] plot_data_empty_x_IndexError [of titles env s]
    py_first_Cons [of x] py_last_Cons [of x]
  by blast

theorem plot_data_empty_x_fails_witness:
  "plot_data (demo_env demo_globs demo_files) [] [] [''t'', ''E'', ''1abc''] demo_state =
     (Inl IndexError,
      \<lparr>world = (), trace = map Plt
         [Subplots, AxPlot [] [] ''black'' (7 / 10), Xlabel ''t'', Ylabel ''E'', Title ''1abc'']\<rparr>)
 \<and> py_first [3, 4, 5 :: rat] = Inr 3 \<and> py_last [3, 4, 5 :: rat] = Inr 5"
  using plot_data_empty_x_fails [of "demo_env demo_globs demo_files" "[]"
      "[''t'', ''E'', ''1abc'']" demo_state "[3, 4, 5 :: rat]"]
  by (simp add: demo_state_def)

subsection \<open>The order of the steps and the container calls\<close>

lemma emits_conj: "emits m P \<Longrightarrow> emits m Q \<Longrightarrow> emits m (\<lambda>r evs. P r evs \<and> Q r evs)"
  unfolding emits_def by (metis same_append_eq)

lemma only_emits_returnE: "only_emits (returnE x) K"
  by (simp add: only_emits_def emits_returnE)

lemma only_emits_liftE: "only_emits (liftE r) K"
  by (simp add: only_emits_def emits_liftE)

lemma only_emits_read_world: "only_emits (read_world f) K"
  by (simp add: only_emits_def emits_read_world)

lemma only_emits_call_world: "K ev \<Longrightarrow> only_emits (call_world ev f) K"
  by (simp add: only_emits_def emits_call_world)

lemma only_emits_plt: "K (Plt c) \<Longrightarrow> only_emits (plt c) K"
  by (simp add: only_emits_def emits_plt)

lemma only_emits_bindE:
  "only_emits m K \<Longrightarrow> (\<And>x. only_emits (f x) K) \<Longrightarrow> only_emits (bindE m f) K"
  unfolding only_emits_def
  by (rule emits_bindE [where P = "\<lambda>r evs. list_all K evs" and R = "\<lambda>x r evs. list_all K evs"]) auto

lemma only_emits_if:
  "(b \<Longrightarrow> only_emits m K) \<Longrightarrow> (\<not> b \<Longrightarrow> only_emits m' K) \<Longrightarrow> only_emits (if b then m else m') K"
  by simp

lemma only_emits_case_prod:
  "(\<And>a b. only_emits (f a b) K) \<Longrightarrow> only_emits (case p of (a, b) \<Rightarrow> f a b) K"
  by (cases p) simp

lemmas only_emits_intros = only_emits_bindE only_emits_returnE only_emits_liftE
  only_emits_read_world only_emits_call_world only_emits_plt only_emits_if only_emits_case_prod

lemma observed_append: "observed f (xs @ ys) = observed f xs @ observed f ys"
  by (simp add: observed_def)

lemma observes_nonempty: "observes f m A \<Longrightarrow> A \<noteq> {}"
  unfolding observes_def emits_def by blast

lemma observes_silent_returnE: "observes f (returnE x) {[]}"
  by (simp add: observes_def emits_returnE observed_def)

lemma observes_silent_liftE: "observes f (liftE r) {[]}"
  by (simp add: observes_def emits_liftE observed_def)

lemma observes_silent_read_world: "observes f (read_world g) {[]}"
  by (simp add: observes_def emits_read_world observed_def)

lemma observes_call_world: "observes f (call_world ev g) {f ev}"
  by (simp add: observes_def emits_call_world observed_def)

lemma observes_plt: "observes f (plt c) {f (Plt c)}"
  by (simp add: observes_def emits_plt observed_def)

lemma observes_weaken: "observes f m A \<Longrightarrow> A \<subseteq> B \<Longrightarrow> observes f m B"
  unfolding observes_def by (erule emits_weaken) blast

lemma cat_prefix_left:
  assumes "L \<in> A" "b \<in> B" "prefix xs L"
  shows "\<exists>L'\<in>cat A B. prefix xs L'"
proof (rule bexI [of _ "L @ b"])
  from assms show "prefix xs (L @ b)" by (auto simp: prefix_def)
  from assms show "L @ b \<in> cat A B" by (auto simp: cat_def)
qed

lemma cat_prefix_right:
  assumes "L \<in> A" "L' \<in> B" "prefix ys L'" "c \<longrightarrow> ys = L'"
  shows "\<exists>M\<in>cat A B. prefix (L @ ys) M \<and> (c \<longrightarrow> L @ ys = M)"
proof (rule bexI [of _ "L @ L'"])
  from assms show "prefix (L @ ys) (L @ L') \<and> (c \<longrightarrow> L @ ys = L @ L')" by auto
  from assms show "L @ L' \<in> cat A B" by (auto simp: cat_def)
qed

lemma observes_bindE:
  assumes m: "observes f m A" and k: "\<And>x. observes f (k x) B"
  shows "observes f (bindE m k) (cat A B)"
proof -
  from observes_nonempty [OF k] obtain b where b: "b \<in> B" by blast
  show ?thesis
    unfolding observes_def
    apply (rule emits_bindE [OF m [unfolded observes_def] k [unfolded observes_def]])
    subgoal for e evs
      using b cat_prefix_left [of _ A b B "observed f evs"] by (auto simp: returned_def)
    subgoal for x evs r evs'
      using cat_prefix_right [of "observed f evs" A _ B "observed f evs'" "returned r"]
      by (auto simp: returned_def observed_append)
    done
qed

lemma cat_singleton [simp]: "cat {a} {b} = {a @ b}"
  by (auto simp: cat_def)

lemma cat_Nil_left [simp]: "cat {[]} B = B"
  by (auto simp: cat_def)

lemma cat_Nil_right [simp]: "cat A {[]} = A"
  by (auto simp: cat_def)

lemma bindE_assoc: "bindE (bindE m f) g = bindE m (\<lambda>x. bindE (f x) g)"
  by (rule ext) (simp add: bindE_def split: prod.splits sum.splits)

lemma bindE_returnE: "bindE (returnE x) f = f x"
  by (rule ext) (simp add: bindE_def returnE_def)

lemma generate_gromacs_data_unfold:
  "generate_gromacs_data env self =
     bindE (create_folder env (lp_path self) ''results'')
       (\<lambda>_. simulation_steps env (lp_run_gromacs self)
          \<lparr>gd_path = lp_path self,
           gd_volume = [(lp_path self, [(''bind'', ''/container/data''), (''mode'', ''rw'')])],
           gd_results_folder = lp_path self @ ''/results''\<rparr>)"
  by (simp add: generate_gromacs_data_def GromacsData_init_def bindE_assoc bindE_returnE
      CONTAINER_WORK_DIR_def)

lemma run_gromacs_container_only:
  "K (ContainersRun \<lparr>run_image = ''jpmontoya19/gromacs:latest'', run_command = command,
        run_working_dir = wd, kw_volumes = vol, kw_remove = rm\<rparr>)
   \<Longrightarrow> only_emits (run_gromacs_container env command wd vol rm) K"
  by (simp add: run_gromacs_container_def Let_def only_emits_call_world)

lemma command_of_simps:
  "command_of (ContainersRun c) = [run_command c]"
  "command_of (Mkdir p) = []"
  "command_of (TarExtract a m d) = []"
  "command_of (Rmtree p) = []"
  "command_of (Plt pc) = []"
  by (simp_all add: command_of_def)

lemma observes_call_world_eq: "f ev = L \<Longrightarrow> observes f (call_world ev g) {L}"
  using observes_call_world [of f ev g] by simp

lemma run_gromacs_container_command:
  "observes command_of (run_gromacs_container env command wd vol rm) {[command]}"
  unfolding run_gromacs_container_def Let_def
  by (rule observes_call_world_eq) (simp add: command_of_simps)

lemma extract_xtc_members_only:
  "(\<And>m. K (TarExtract step m dest))
   \<Longrightarrow> only_emits (extract_xtc_members env dest step members xtc_files) K"
  by (induction members arbitrary: xtc_files) (auto intro!: only_emits_intros)

lemma extract_steps_only:
  "(\<And>step m. K (TarExtract step m dest))
   \<Longrightarrow> only_emits (extract_steps env dest steps xtc_files) K"
  by (induction steps arbitrary: xtc_files)
    (auto intro!: only_emits_intros extract_xtc_members_only)

lemma find_last_tpr_file_only: "only_emits (find_last_tpr_file env self) K"
  unfolding find_last_tpr_file_def by (intro only_emits_intros)

lemma energy_only:
  assumes "\<And>c. container_uses (gd_volume self) (ContainersRun c :: 'f effect) \<Longrightarrow> K (ContainersRun c)"
  shows "only_emits (generate_minimization_data env self :: ('w, 'f, string) action) K"
    and "only_emits (generate_nvt_data env self :: ('w, 'f, string) action) K"
    and "only_emits (generate_npt_data env self :: ('w, 'f, string) action) K"
  unfolding generate_minimization_data_def generate_nvt_data_def generate_npt_data_def
  by (intro only_emits_intros run_gromacs_container_only assms;
      simp add: container_uses_def CONTAINER_WORK_DIR_def)+

lemma gromacs_ops_only:
  assumes c: "\<And>c. container_uses (gd_volume self) (ContainersRun c :: 'f effect) \<Longrightarrow> K (ContainersRun c)"
  shows "only_emits (fix_periodicity env self :: ('w, 'f, string) action) K"
    and "only_emits (get_initial_configuration env self :: ('w, 'f, unit) action) K"
    and "only_emits (get_latest_configuration env self :: ('w, 'f, unit) action) K"
  unfolding fix_periodicity_def get_initial_configuration_def get_latest_configuration_def Let_def
  by (intro only_emits_intros find_last_tpr_file_only run_gromacs_container_only c;
      simp add: container_uses_def CONTAINER_WORK_DIR_def)+

lemma generate_final_xtc_file_only:
  assumes c: "\<And>c. container_uses (gd_volume self) (ContainersRun c :: 'f effect) \<Longrightarrow> K (ContainersRun c)"
    and t: "\<And>a m d. K (TarExtract a m d)" and r: "\<And>p. K (Rmtree p)"
  shows "only_emits (generate_final_xtc_file env self :: ('w, 'f, unit) action) K"
  unfolding generate_final_xtc_file_def
  by (intro only_emits_intros extract_steps_only run_gromacs_container_only c t r;
      simp add: container_uses_def CONTAINER_WORK_DIR_def)+

lemma simulation_steps_only:
  assumes c: "\<And>c. container_uses (gd_volume self) (ContainersRun c :: 'f effect) \<Longrightarrow> K (ContainersRun c)"
    and t: "\<And>a m d. flag \<Longrightarrow> K (TarExtract a m d)" and r: "\<And>p. flag \<Longrightarrow> K (Rmtree p)"
  shows "only_emits (simulation_steps env flag self :: ('w, 'f, unit) action) K"
  by (intro only_emits_intros energy_only gromacs_ops_only generate_final_xtc_file_only c t r)

lemma generate_gromacs_data_only:
  assumes c: "\<And>c. container_uses [(lp_path self, [(''bind'', ''/container/data''), (''mode'', ''rw'')])]
                 (ContainersRun c :: 'f effect) \<Longrightarrow> K (ContainersRun c)"
    and t: "\<And>a m d. lp_run_gromacs self \<Longrightarrow> K (TarExtract a m d)"
    and r: "\<And>p. lp_run_gromacs self \<Longrightarrow> K (Rmtree p)"
    and m: "\<And>p. K (Mkdir p)"
  shows "only_emits (generate_gromacs_data env self :: ('w, 'f, unit) action) K"
  unfolding generate_gromacs_data_unfold create_folder_def
  by (intro only_emits_bindE only_emits_call_world simulation_steps_only m t r) (simp_all add: c)

lemma find_last_tpr_file_silent: "observes f (find_last_tpr_file env self) {[]}"
proof -
  have "observes f (find_last_tpr_file env self) (cat {[]} (cat {[]} {[]}))"
    unfolding find_last_tpr_file_def
    by (intro observes_bindE observes_silent_read_world observes_silent_liftE
        observes_silent_returnE)
  then show ?thesis by simp
qed

lemma decode_commands:
  "observes command_of
     (bindE (run_gromacs_container env command wd vol rm) (\<lambda>out. liftE (decode_utf8 env out)))
     {[command]}"
  using observes_bindE [OF run_gromacs_container_command [of env command wd vol rm],
      of "\<lambda>out. liftE (decode_utf8 env out)" "{[]}"]
  by (simp add: observes_silent_liftE)

lemma minimization_commands:
  "observes command_of (generate_minimization_data env self)
     {[sh ''echo 10 0 | gmx energy -f em.edr -o potential.xvg'']}"
  unfolding generate_minimization_data_def by (rule decode_commands)

lemma nvt_commands:
  "observes command_of (generate_nvt_data env self)
     {[sh ''echo 16 0 | gmx energy -f nvt.edr -o temperature.xvg'']}"
  unfolding generate_nvt_data_def by (rule decode_commands)

lemma npt_commands:
  "observes command_of (generate_npt_data env self)
     {[sh ''echo 18 0 | gmx energy -f npt.edr -o pressure.xvg'',
       sh ''echo 24 0 | gmx energy -f npt.edr -o density.xvg'']}"
proof -
  have "observes command_of (generate_npt_data env self)
     (cat {[sh ''echo 18 0 | gmx energy -f npt.edr -o pressure.xvg'']}
        (cat {[]} (cat {[sh ''echo 24 0 | gmx energy -f npt.edr -o density.xvg'']}
           (cat {[]} {[]}))))"
    unfolding generate_npt_data_def
    by (intro observes_bindE run_gromacs_container_command observes_silent_liftE
        observes_silent_returnE)
  then show ?thesis by simp
qed

lemma extract_xtc_members_silent:
  "observes command_of (extract_xtc_members env dest step members xtc_files) {[]}"
proof (induction members arbitrary: xtc_files)
  case Nil
  show ?case by (simp add: observes_silent_returnE)
next
  case (Cons member members)
  have "observes command_of
          (bindE (call_world (TarExtract step member dest) (tar_extract env step member dest))
             (\<lambda>_. extract_xtc_members env dest step members (xtc_files @ [member])))
          (cat {[]} {[]})"
    by (intro observes_bindE observes_call_world_eq Cons.IH) (simp add: command_of_simps)
  with Cons.IH [of xtc_files] show ?case by simp
qed

lemma extract_steps_silent:
  "observes command_of (extract_steps env dest steps xtc_files) {[]}"
proof (induction steps arbitrary: xtc_files)
  case Nil
  show ?case by (simp add: observes_silent_returnE)
next
  case (Cons step steps)
  have "observes command_of (extract_steps env dest (step # steps) xtc_files)
          (cat {[]} (cat {[]} {[]}))"
    unfolding extract_steps.simps
    by (intro observes_bindE observes_silent_read_world extract_xtc_members_silent Cons.IH)
  then show ?case by simp
qed

lemma generate_final_xtc_file_commands:
  "observes command_of (generate_final_xtc_file env self)
     {[sh (trjcat_command xtc_files)] |xtc_files. True}"
proof -
  let ?A = "{[sh (trjcat_command xtc_files)] |xtc_files. True}"
  have tail: "observes command_of
      (bindE (run_gromacs_container env (sh (trjcat_command xtc_files))
                CONTAINER_WORK_DIR (Some (gd_volume self)) None)
         (\<lambda>_. call_world (Rmtree (gd_path self @ ''/my_output''))
                 (fs_rmtree env (gd_path self @ ''/my_output'')))) ?A" for xtc_files
  proof (rule observes_weaken)
    show "observes command_of
      (bindE (run_gromacs_container env (sh (trjcat_command xtc_files))
                CONTAINER_WORK_DIR (Some (gd_volume self)) None)
         (\<lambda>_. call_world (Rmtree (gd_path self @ ''/my_output''))
                 (fs_rmtree env (gd_path self @ ''/my_output''))))
      (cat {[sh (trjcat_command xtc_files)]} {[]})"
      by (intro observes_bindE run_gromacs_container_command observes_call_world_eq)
        (simp add: command_of_simps)
    show "cat {[sh (trjcat_command xtc_files)]} {[]} \<subseteq> ?A" by auto
  qed
  have "observes command_of (generate_final_xtc_file env self) (cat {[]} (cat {[]} ?A))"
    unfolding generate_final_xtc_file_def
    by (intro observes_bindE observes_silent_read_world extract_steps_silent tail)
  then show ?thesis by simp
qed

lemma fix_periodicity_commands:
  "observes command_of (fix_periodicity env self) {[sh (periodicity_command tpr)] |tpr. True}"
proof -
  let ?A = "{[sh (periodicity_command tpr)] |tpr. True}"
  have tail: "observes command_of
      (case p of (filename, _) \<Rightarrow>
         bindE (run_gromacs_container env (sh (periodicity_command filename))
                  CONTAINER_WORK_DIR (Some (gd_volume self)) None)
           (\<lambda>out. liftE (decode_utf8 env out))) ?A" for p :: "string \<times> path"
  proof (cases p)
    case (Pair filename q)
    have "{[sh (periodicity_command filename)]} \<subseteq> ?A" by auto
    from observes_weaken [OF decode_commands this]
    show ?thesis unfolding Pair by simp
  qed
  have "observes command_of (fix_periodicity env self) (cat {[]} ?A)"
    unfolding fix_periodicity_def
    by (intro observes_bindE find_last_tpr_file_silent tail)
  then show ?thesis by simp
qed

lemma dump_commands:
  "observes command_of
     (bindE (find_last_tpr_file env self)
        (\<lambda>(filename, _).
           bindE (run_gromacs_container env (sh (dump_command filename output dump_time))
                    CONTAINER_WORK_DIR (Some (gd_volume self)) None)
             (\<lambda>_. returnE ())))
     {[sh (dump_command tpr output dump_time)] |tpr. True}"
proof -
  let ?A = "{[sh (dump_command tpr output dump_time)] |tpr. True}"
  have tail: "observes command_of
      (case p of (filename, _) \<Rightarrow>
         bindE (run_gromacs_container env (sh (dump_command filename output dump_time))
                  CONTAINER_WORK_DIR (Some (gd_volume self)) None)
           (\<lambda>_. returnE ())) ?A" for p :: "string \<times> path"
  proof (cases p)
    case (Pair filename q)
    have "observes command_of
       (bindE (run_gromacs_container env (sh (dump_command filename output dump_time))
                  CONTAINER_WORK_DIR (Some (gd_volume self)) None)
           (\<lambda>_. returnE ())) (cat {[sh (dump_command filename output dump_time)]} {[]})"
      by (intro observes_bindE run_gromacs_container_command observes_silent_returnE)
    moreover have "cat {[sh (dump_command filename output dump_time)]} {[]} \<subseteq> ?A" by auto
    ultimately have "observes command_of
       (bindE (run_gromacs_container env (sh (dump_command filename output dump_time))
                  CONTAINER_WORK_DIR (Some (gd_volume self)) None)
           (\<lambda>_. returnE ())) ?A"
      by (rule observes_weaken)
    then show ?thesis unfolding Pair by simp
  qed
  have "observes command_of
     (bindE (find_last_tpr_file env self)
        (\<lambda>(filename, _).
           bindE (run_gromacs_container env (sh (dump_command filename output dump_time))
                    CONTAINER_WORK_DIR (Some (gd_volume self)) None)
             (\<lambda>_. returnE ()))) (cat {[]} ?A)"
    by (intro observes_bindE find_last_tpr_file_silent tail)
  then show ?thesis by simp
qed

lemma get_initial_configuration_commands:
  "observes command_of (get_initial_configuration env self)
     {[sh (dump_command tpr ''initial_configuration.pdb'' ''0'')] |tpr. True}"
  unfolding get_initial_configuration_def by (rule dump_commands)

lemma get_latest_configuration_commands:
  "observes command_of (get_latest_configuration env self)
     {[sh ''gmx check -f fixed.xtc > trajectory_info.txt 2>&1'',
       sh (dump_command tpr ''last_configuration.pdb'' (format_last_frame last_frame))]
      |tpr last_frame. True}"
proof -
  let ?B = "{[sh (dump_command tpr ''last_configuration.pdb'' (format_last_frame last_frame))]
      |tpr last_frame. True}"
  have tail: "observes command_of
     (let last_frame = find_last_frame lines in
        bindE (find_last_tpr_file env self)
          (\<lambda>(filename, _).
             bindE (run_gromacs_container env
                      (sh (dump_command filename ''last_configuration.pdb''
                             (format_last_frame last_frame)))
                      CONTAINER_WORK_DIR (Some (gd_volume self)) None)
               (\<lambda>_. returnE ()))) ?B" for lines
    unfolding Let_def
    by (rule observes_weaken [OF dump_commands]) auto
  have "observes command_of (get_latest_configuration env self)
      (cat {[sh ''gmx check -f fixed.xtc > trajectory_info.txt 2>&1'']} (cat {[]} ?B))"
    unfolding get_latest_configuration_def
    by (intro observes_bindE run_gromacs_container_command observes_silent_read_world tail)
  also have "cat {[sh ''gmx check -f fixed.xtc > trajectory_info.txt 2>&1'']} (cat {[]} ?B)
     = {[sh ''gmx check -f fixed.xtc > trajectory_info.txt 2>&1'',
       sh (dump_command tpr ''last_configuration.pdb'' (format_last_frame last_frame))]
      |tpr last_frame. True}"
    by (auto simp: cat_def)
  finally show ?thesis .
qed

lemma generate_ligand_plots_unfold:
  "generate_ligand_plots env self =
     bindE (create_folder env (lp_path self) ''images'')
       (\<lambda>_. chart_steps env
          \<lparr>pl_path = lp_path self, pl_protein = lp_protein self,
           images_path = lp_path self @ ''/images/''\<rparr>)"
  by (simp add: generate_ligand_plots_def Plots_init_def bindE_assoc bindE_returnE)

lemma observes_silent:
  assumes "only_emits m (\<lambda>e. f e = [])"
  shows "observes f m {[]}"
  unfolding observes_def
  by (rule emits_weaken [OF assms [unfolded only_emits_def]])
    (auto simp: observed_def list_all_iff)

lemma simulation_steps_commands:
  "observes command_of (simulation_steps env flag self)
     {simulation_commands flag xtc tpr1 tpr2 tpr3 lf |xtc tpr1 tpr2 tpr3 lf. True}"
proof -
  let ?F = "{[sh (trjcat_command xtc_files)] |xtc_files. True}"
  let ?P = "{[sh (periodicity_command tpr)] |tpr. True}"
  let ?I = "{[sh (dump_command tpr ''initial_configuration.pdb'' ''0'')] |tpr. True}"
  let ?L = "{[sh ''gmx check -f fixed.xtc > trajectory_info.txt 2>&1'',
       sh (dump_command tpr ''last_configuration.pdb'' (format_last_frame last_frame))]
      |tpr last_frame. True}"
  let ?C = "if flag then cat ?F (cat ?P {[]}) else {[]}"
  have chain: "observes command_of
     (if flag
      then bindE (generate_final_xtc_file env self) (\<lambda>_.
           bindE (fix_periodicity env self) (\<lambda>periodicity. returnE ()))
      else returnE ()) ?C"
  proof (cases flag)
    case True
    have "observes command_of
       (bindE (generate_final_xtc_file env self) (\<lambda>_.
           bindE (fix_periodicity env self) (\<lambda>periodicity. returnE ()))) (cat ?F (cat ?P {[]}))"
      by (intro observes_bindE generate_final_xtc_file_commands fix_periodicity_commands
          observes_silent_returnE)
    with True show ?thesis by simp
  next
    case False
    then show ?thesis by (simp add: observes_silent_returnE)
  qed
  have "observes command_of (simulation_steps env flag self)
     (cat {[sh ''echo 10 0 | gmx energy -f em.edr -o potential.xvg'']}
     (cat {[sh ''echo 16 0 | gmx energy -f nvt.edr -o temperature.xvg'']}
     (cat {[sh ''echo 18 0 | gmx energy -f npt.edr -o pressure.xvg'',
            sh ''echo 24 0 | gmx energy -f npt.edr -o density.xvg'']}
     (cat ?C (cat ?I ?L)))))"
    by (intro observes_bindE minimization_commands nvt_commands npt_commands chain
        get_initial_configuration_commands get_latest_configuration_commands)
  then show ?thesis
  proof (rule observes_weaken)
    show "cat {[sh ''echo 10 0 | gmx energy -f em.edr -o potential.xvg'']}
     (cat {[sh ''echo 16 0 | gmx energy -f nvt.edr -o temperature.xvg'']}
     (cat {[sh ''echo 18 0 | gmx energy -f npt.edr -o pressure.xvg'',
            sh ''echo 24 0 | gmx energy -f npt.edr -o density.xvg'']}
     (cat ?C (cat ?I ?L))))
     \<subseteq> {simulation_commands flag xtc tpr1 tpr2 tpr3 lf |xtc tpr1 tpr2 tpr3 lf. True}"
      by (cases flag) (auto simp: cat_def simulation_commands_def; blast)+
  qed
qed

lemma generate_gromacs_data_commands:
  "observes command_of (generate_gromacs_data env self)
     {simulation_commands (lp_run_gromacs self) xtc tpr1 tpr2 tpr3 lf |xtc tpr1 tpr2 tpr3 lf. True}"
proof -
  have "observes command_of (generate_gromacs_data env self)
     (cat {[]} {simulation_commands (lp_run_gromacs self) xtc tpr1 tpr2 tpr3 lf
                |xtc tpr1 tpr2 tpr3 lf. True})"
    unfolding generate_gromacs_data_unfold create_folder_def
    by (intro observes_bindE simulation_steps_commands observes_call_world_eq)
      (simp add: command_of_simps)
  then show ?thesis by simp
qed

lemma read_xvg_files_only: "only_emits (read_xvg_files env file_path) K"
  unfolding read_xvg_files_def by (intro only_emits_intros)

lemma plot_data_only: "(\<And>c. K (Plt c)) \<Longrightarrow> only_emits (plot_data env x y titles) K"
  unfolding plot_data_def by (intro only_emits_intros) simp_all

lemma savefig_only:
  "K (Plt (Savefig fname b p d)) \<Longrightarrow> only_emits (savefig env fname b p d) K"
  by (simp add: savefig_def only_emits_call_world)

lemma wrappers_only:
  assumes "\<And>c. K (Plt c)"
  shows "only_emits (plot_energy_minimization env self) K"
    and "only_emits (plot_temperature env self) K"
    and "only_emits (plot_pressure env self) K"
    and "only_emits (plot_density env self) K"
  unfolding plot_energy_minimization_def plot_temperature_def plot_pressure_def plot_density_def
  by (intro only_emits_intros read_xvg_files_only plot_data_only savefig_only assms)+

lemma generate_ligand_plots_only:
  assumes "\<And>c. K (Plt c)" "\<And>p. K (Mkdir p)"
  shows "only_emits (generate_ligand_plots env self) K"
  unfolding generate_ligand_plots_unfold create_folder_def
  by (intro only_emits_intros wrappers_only assms)

lemma savefig_of_simps:
  "savefig_of (Plt (Savefig fname b p d)) = [fname]"
  "savefig_of (Plt (Suptitle t n m)) = []"
  "savefig_of (Mkdir q) = []"
  by (simp_all add: savefig_of_def)

lemma observes_plt_eq: "f (Plt c) = L \<Longrightarrow> observes f (plt c) {L}"
  using observes_plt [of f c] by simp

lemma plot_data_no_savefig: "observes savefig_of (plot_data env x y titles) {[]}"
  by (rule observes_silent, unfold plot_data_def, intro only_emits_intros)
    (simp_all add: savefig_of_def)

lemma savefig_observes: "observes savefig_of (savefig env fname b p d) {[fname]}"
  unfolding savefig_def by (rule observes_call_world_eq) (simp add: savefig_of_simps)

lemma wrapper_savefig:
  "observes savefig_of
     (bindE (read_xvg_files env file_path) (\<lambda>a.
      bindE (liftE (nd_column a 0)) (\<lambda>c0.
      bindE (liftE (nd_column a 1)) (\<lambda>c1.
      bindE (plot_data env (g c0) c1 titles) (\<lambda>_.
      bindE (plt (Suptitle t n m)) (\<lambda>_. savefig env fname b p d))))))
     {[fname]}"
proof -
  have "observes savefig_of
     (bindE (read_xvg_files env file_path) (\<lambda>a.
      bindE (liftE (nd_column a 0)) (\<lambda>c0.
      bindE (liftE (nd_column a 1)) (\<lambda>c1.
      bindE (plot_data env (g c0) c1 titles) (\<lambda>_.
      bindE (plt (Suptitle t n m)) (\<lambda>_. savefig env fname b p d))))))
     (cat {[]} (cat {[]} (cat {[]} (cat {[]}
        (cat {[]} {[fname]})))))"
    by (intro observes_bindE observes_silent [OF read_xvg_files_only] observes_silent_liftE
        plot_data_no_savefig observes_plt_eq savefig_observes)
      (simp_all add: savefig_of_simps)
  then show ?thesis by simp
qed

lemma wrappers_savefig:
  "observes savefig_of (plot_energy_minimization env self) {[images_path self @ ''minimization.png'']}"
  "observes savefig_of (plot_temperature env self) {[images_path self @ ''temperature.png'']}"
  "observes savefig_of (plot_pressure env self) {[images_path self @ ''pressure.png'']}"
  "observes savefig_of (plot_density env self) {[images_path self @ ''density.png'']}"
  unfolding plot_energy_minimization_def plot_temperature_def plot_pressure_def plot_density_def
  by (rule wrapper_savefig [where g = "map (div_1000 env)"] wrapper_savefig [where g = "\<lambda>c. c"])+

lemma generate_ligand_plots_savefig:
  "observes savefig_of (generate_ligand_plots env self) {chart_files (lp_path self)}"
proof -
  let ?p = "\<lparr>pl_path = lp_path self, pl_protein = lp_protein self,
             images_path = lp_path self @ ''/images/''\<rparr>"
  have "observes savefig_of (generate_ligand_plots env self)
     (cat {[]} (cat {[images_path ?p @ ''minimization.png'']}
        (cat {[images_path ?p @ ''temperature.png'']}
           (cat {[images_path ?p @ ''pressure.png'']}
                {[images_path ?p @ ''density.png'']}))))"
    unfolding generate_ligand_plots_unfold create_folder_def
    by (intro observes_bindE observes_call_world_eq wrappers_savefig)
      (simp add: savefig_of_simps)
  then show ?thesis by (simp add: chart_files_def)
qed

lemma no_chain_commands:
  assumes "c \<in> set (simulation_commands False xtc tpr1 tpr2 tpr3 lf)"
  shows "c \<noteq> sh (trjcat_command xtc_files) \<and> c \<noteq> sh (periodicity_command tpr)"
  using assms
  by (auto simp: simulation_commands_def sh_def trjcat_command_def periodicity_command_def
      dump_command_def)

lemma run_shapeI:
  assumes "evs = sim @ charts"
    "prefix (observed command_of sim) (simulation_commands flag xtc tpr1 tpr2 tpr3 lf)"
    "list_all (\<lambda>e. \<not> is_chart e) sim"
    "list_all (\<lambda>e. \<not> is_container_run e \<and> \<not> is_trajectory_file_op e) charts"
    "list_all (\<lambda>e. \<not> flag \<longrightarrow> \<not> is_trajectory_file_op e) sim"
    "charts \<noteq> [] \<longrightarrow>
       observed command_of sim = simulation_commands flag xtc tpr1 tpr2 tpr3 lf"
    "prefix (observed savefig_of charts) (chart_files path)"
    "returned r \<longrightarrow>
       observed command_of sim = simulation_commands flag xtc tpr1 tpr2 tpr3 lf
     \<and> observed savefig_of charts = chart_files path"
  shows "run_shape flag path r evs"
  unfolding run_shape_def using assms by blast

lemma Run_emits:
  "emits (Run env self) (run_shape (lp_run_gromacs self) (lp_path self))"
proof -
  let ?S = "{simulation_commands (lp_run_gromacs self) xtc tpr1 tpr2 tpr3 lf
             |xtc tpr1 tpr2 tpr3 lf. True}"
  have g1: "only_emits (generate_gromacs_data env self) (\<lambda>e. \<not> is_chart e)"
    by (rule generate_gromacs_data_only) (simp_all add: is_chart_def)
  have g2: "only_emits (generate_gromacs_data env self)
              (\<lambda>e. \<not> lp_run_gromacs self \<longrightarrow> \<not> is_trajectory_file_op e)"
    by (rule generate_gromacs_data_only) (simp_all add: is_trajectory_file_op_def)
  have p1: "only_emits (generate_ligand_plots env self)
              (\<lambda>e. \<not> is_container_run e \<and> \<not> is_trajectory_file_op e)"
    by (rule generate_ligand_plots_only)
      (simp_all add: is_container_run_def is_trajectory_file_op_def)
  note G = emits_conj [OF generate_gromacs_data_commands [unfolded observes_def]
      emits_conj [OF g1 [unfolded only_emits_def] g2 [unfolded only_emits_def]]]
  note P = emits_conj [OF generate_ligand_plots_savefig [unfolded observes_def]
      p1 [unfolded only_emits_def]]
  show ?thesis
    unfolding Run_def
  proof (rule emits_bindE [OF G P], goal_cases)
    case (1 e evs)
    then obtain xtc tpr1 tpr2 tpr3 lf where
      "prefix (observed command_of evs)
         (simulation_commands (lp_run_gromacs self) xtc tpr1 tpr2 tpr3 lf)"
      by blast
    with 1 show ?case
      by (intro run_shapeI [of evs evs "[]" _ xtc tpr1 tpr2 tpr3 lf])
        (simp_all add: returned_def observed_def)
  next
    case (2 x evs r evs')
    then obtain xtc tpr1 tpr2 tpr3 lf where
      "observed command_of evs
         = simulation_commands (lp_run_gromacs self) xtc tpr1 tpr2 tpr3 lf"
      by (auto simp: returned_def)
    with 2 show ?case
      by (intro run_shapeI [of _ evs evs' _ xtc tpr1 tpr2 tpr3 lf])
        (auto simp: returned_def)
  qed
qed

lemma only_emits_new_events:
  assumes "only_emits m K"
  shows "list_all K (new_events s (snd (m s)))"
  using emitsD [OF assms [unfolded only_emits_def], of s] by (auto simp: new_events_def)

lemma GromacsData_init_volume:
  assumes "fst (GromacsData_init env path s) = Inr g"
  shows "gd_path g = path
       \<and> gd_volume g = [(path, [(''bind'', ''/container/data''), (''mode'', ''rw'')])]"
  using assms
  by (auto simp: GromacsData_init_def create_folder_def monad_defs CONTAINER_WORK_DIR_def
      split: prod.splits sum.splits)

text \<open>
  Claim C2. From any state, what \<^verbatim>\<open>Run\<close> appends to the trace is the events of the
  simulation steps followed by the events of the charts. The commands sent to Docker by
  the simulation steps are a prefix, cut where a step raised, of the fixed sequence
  \<open>simulation_commands\<close>: minimization, NVT, NPT, with the flag set the concatenation and the
  periodicity fix, then the initial and the latest configuration, these two whatever the
  flag. With the flag unset no archive is extracted, no folder removed and no
  concatenation or periodicity command sent. No chart call is made by the simulation
  steps, and as soon as one event of the charts exists the sequence of commands is
  complete. When \<^verbatim>\<open>Run\<close> returns, the four images have been saved, in their order.
\<close>

theorem Run_step_order:
  "\<exists>sim charts xtc tpr1 tpr2 tpr3 lf.
      trace (snd (Run env self s)) = trace s @ sim @ charts
    \<and> prefix (observed command_of sim)
         (simulation_commands (lp_run_gromacs self) xtc tpr1 tpr2 tpr3 lf)
    \<and> list_all (\<lambda>e. \<not> is_chart e) sim
    \<and> list_all (\<lambda>e. \<not> is_container_run e \<and> \<not> is_trajectory_file_op e) charts
    \<and> (\<not> lp_run_gromacs self \<longrightarrow>
          list_all (\<lambda>e. \<not> is_trajectory_file_op e) sim
        \<and> (\<forall>c\<in>set (observed command_of sim). \<forall>xtc_files tpr.
              c \<noteq> sh (trjcat_command xtc_files) \<and> c \<noteq> sh (periodicity_command tpr)))
    \<and> (charts \<noteq> [] \<longrightarrow>
          observed command_of sim
            = simulation_commands (lp_run_gromacs self) xtc tpr1 tpr2 tpr3 lf)
    \<and> prefix (observed savefig_of charts) (chart_files (lp_path self))
    \<and> (returned (fst (Run env self s)) \<longrightarrow>
          observed command_of sim
            = simulation_commands (lp_run_gromacs self) xtc tpr1 tpr2 tpr3 lf
        \<and> observed savefig_of charts = chart_files (lp_path self))"
proof -
  from emitsD [OF Run_emits, of env self s] obtain evs where
    evs: "trace (snd (Run env self s)) = trace s @ evs"
    and shape: "run_shape (lp_run_gromacs self) (lp_path self) (fst (Run env self s)) evs"
    by blast
  from shape obtain sim charts xtc tpr1 tpr2 tpr3 lf where
    split: "evs = sim @ charts"
    and pre: "prefix (observed command_of sim)
                (simulation_commands (lp_run_gromacs self) xtc tpr1 tpr2 tpr3 lf)"
    and sim: "list_all (\<lambda>e. \<not> is_chart e) sim"
    and charts: "list_all (\<lambda>e. \<not> is_container_run e \<and> \<not> is_trajectory_file_op e) charts"
    and chain: "list_all (\<lambda>e. \<not> lp_run_gromacs self \<longrightarrow> \<not> is_trajectory_file_op e) sim"
    and after: "charts \<noteq> [] \<longrightarrow> observed command_of sim
                  = simulation_commands (lp_run_gromacs self) xtc tpr1 tpr2 tpr3 lf"
    and figs: "prefix (observed savefig_of charts) (chart_files (lp_path self))"
    and fin: "returned (fst (Run env self s)) \<longrightarrow>
          observed command_of sim
            = simulation_commands (lp_run_gromacs self) xtc tpr1 tpr2 tpr3 lf
        \<and> observed savefig_of charts = chart_files (lp_path self)"
    unfolding run_shape_def by blast
  have off: "\<not> lp_run_gromacs self \<longrightarrow>
          list_all (\<lambda>e. \<not> is_trajectory_file_op e) sim
        \<and> (\<forall>c\<in>set (observed command_of sim). \<forall>xtc_files tpr.
              c \<noteq> sh (trjcat_command xtc_files) \<and> c \<noteq> sh (periodicity_command tpr))"
  proof (intro impI conjI ballI allI)
    assume off: "\<not> lp_run_gromacs self"
    with chain show "list_all (\<lambda>e. \<not> is_trajectory_file_op e) sim" by simp
    fix c xtc_files tpr
    assume "c \<in> set (observed command_of sim)"
    with pre off have "c \<in> set (simulation_commands False xtc tpr1 tpr2 tpr3 lf)"
      using set_mono_prefix by fastforce
    then show "c \<noteq> sh (trjcat_command xtc_files)" "c \<noteq> sh (periodicity_command tpr)"
      using no_chain_commands by blast+
  qed
  from evs split have "trace (snd (Run env self s)) = trace s @ sim @ charts" by simp
  with pre sim charts off after figs fin show ?thesis by blast
qed

lemmas gromacs_defs = generate_gromacs_data_def GromacsData_init_def create_folder_def
  generate_minimization_data_def generate_nvt_data_def generate_npt_data_def
  generate_final_xtc_file_def fix_periodicity_def get_initial_configuration_def
  get_latest_configuration_def run_gromacs_container_def find_last_tpr_file_def
  find_files_with_same_pattern_def sorted_paths_def parts_normcase_def split_sep_def
  path_name_def py_last_def endswith_def Let_def

lemmas chart_defs = generate_ligand_plots_def Plots_init_def plot_energy_minimization_def
  plot_temperature_def plot_pressure_def plot_density_def

lemma demo_Run_returns:
  "returned (fst (Run (demo_env demo_globs demo_files) (demo_ligand_plots flag) demo_state))"
  by (cases flag)
    (simp_all add: Run_def gromacs_defs chart_defs demo_ligand_plots_def demo_defs monad_defs
      create_folder_def reader_defs plot_defs returned_def)


theorem Run_step_order_witness:
  "returned (fst (Run (demo_env demo_globs demo_files) (demo_ligand_plots True) demo_state))
 \<and> (\<exists>sim charts xtc tpr1 tpr2 tpr3 lf.
       trace (snd (Run (demo_env demo_globs demo_files) (demo_ligand_plots True) demo_state))
         = sim @ charts
     \<and> list_all (\<lambda>e. \<not> is_chart e) sim
     \<and> observed command_of sim = simulation_commands True xtc tpr1 tpr2 tpr3 lf
     \<and> observed savefig_of charts = chart_files ''w'')
 \<and> returned (fst (Run (demo_env demo_globs demo_files) (demo_ligand_plots False) demo_state))
 \<and> (\<exists>sim charts xtc tpr1 tpr2 tpr3 lf.
       trace (snd (Run (demo_env demo_globs demo_files) (demo_ligand_plots False) demo_state))
         = sim @ charts
     \<and> list_all (\<lambda>e. \<not> is_trajectory_file_op e) sim
     \<and> observed command_of sim = simulation_commands False xtc tpr1 tpr2 tpr3 lf
     \<and> observed savefig_of charts = chart_files ''w'')"
proof -
  have on: "lp_run_gromacs (demo_ligand_plots True)" "lp_path (demo_ligand_plots True) = ''w''"
    and off: "\<not> lp_run_gromacs (demo_ligand_plots False)" "lp_path (demo_ligand_plots False) = ''w''"
    and start: "trace demo_state = []"
    by (simp_all add: demo_ligand_plots_def demo_state_def)
  from Run_step_order [of "demo_env demo_globs demo_files" "demo_ligand_plots True" demo_state]
    demo_Run_returns [of True] on start
  have 1: "\<exists>sim charts xtc tpr1 tpr2 tpr3 lf.
       trace (snd (Run (demo_env demo_globs demo_files) (demo_ligand_plots True) demo_state))
         = sim @ charts
     \<and> list_all (\<lambda>e. \<not> is_chart e) sim
     \<and> observed command_of sim = simulation_commands True xtc tpr1 tpr2 tpr3 lf
     \<and> observed savefig_of charts = chart_files ''w''"
    by (simp only: append_Nil simp_thms) blast
  from Run_step_order [of "demo_env demo_globs demo_files" "demo_ligand_plots False" demo_state]
    demo_Run_returns [of False] off start
  have 2: "\<exists>sim charts xtc tpr1 tpr2 tpr3 lf.
       trace (snd (Run (demo_env demo_globs demo_files) (demo_ligand_plots False) demo_state))
         = sim @ charts
     \<and> list_all (\<lambda>e. \<not> is_trajectory_file_op e) sim
     \<and> observed command_of sim = simulation_commands False xtc tpr1 tpr2 tpr3 lf
     \<and> observed savefig_of charts = chart_files ''w''"
    by (simp only: append_Nil simp_thms) blast
  from 1 2 demo_Run_returns [of True] demo_Run_returns [of False] show ?thesis by blast
qed

text \<open>
  Claim C10. The constructor binds the working directory to \<^verbatim>\<open>/container/data\<close> in mode
  \<^verbatim>\<open>rw\<close>. Every call to Docker made by any operation of \<^verbatim>\<open>GromacsData\<close> uses the image
  \<^verbatim>\<open>jpmontoya19/gromacs:latest\<close>, the working directory \<^verbatim>\<open>/container/data\<close> and the volume
  mapping of the object, and so does every call of a whole \<^verbatim>\<open>generate_gromacs_data\<close>, with
  the mapping built from the path of the run. The operations read the object and never
  assign to it: in the model it is a parameter that no operation returns changed.
\<close>

theorem container_mapping_fixed:
  "(\<forall>g. fst (GromacsData_init env path s) = Inr g \<longrightarrow>
        gd_path g = path
      \<and> gd_volume g = [(path, [(''bind'', ''/container/data''), (''mode'', ''rw'')])])
 \<and> list_all (container_uses (gd_volume self))
      (new_events s (snd (generate_minimization_data env self s)))
 \<and> list_all (container_uses (gd_volume self))
      (new_events s (snd (generate_nvt_data env self s)))
 \<and> list_all (container_uses (gd_volume self))
      (new_events s (snd (generate_npt_data env self s)))
 \<and> list_all (container_uses (gd_volume self))
      (new_events s (snd (generate_final_xtc_file env self s)))
 \<and> list_all (container_uses (gd_volume self))
      (new_events s (snd (fix_periodicity env self s)))
 \<and> list_all (container_uses (gd_volume self))
      (new_events s (snd (get_initial_configuration env self s)))
 \<and> list_all (container_uses (gd_volume self))
      (new_events s (snd (get_latest_configuration env self s)))
 \<and> list_all (container_uses [(lp_path lp, [(''bind'', ''/container/data''), (''mode'', ''rw'')])])
      (new_events s (snd (generate_gromacs_data env lp s)))"
proof -
  have other: "container_uses vol (TarExtract a m d :: 'b effect)"
    "container_uses vol (Rmtree p :: 'b effect)" "container_uses vol (Mkdir p :: 'b effect)"
    for vol a m d p
    by (simp_all add: container_uses_def)
  show ?thesis
    using GromacsData_init_volume [of env path s]
    by (intro conjI only_emits_new_events energy_only gromacs_ops_only
        generate_final_xtc_file_only generate_gromacs_data_only other) simp_all
qed

theorem container_mapping_fixed_witness:
  "fst (GromacsData_init (demo_env demo_globs demo_files) ''w'' demo_state) = Inr demo_gromacs
 \<and> list_all (container_uses [(''w'', [(''bind'', ''/container/data''), (''mode'', ''rw'')])])
      (trace (snd (generate_gromacs_data (demo_env demo_globs demo_files)
                     (demo_ligand_plots True) demo_state)))
 \<and> length (filter is_container_run
      (trace (snd (generate_gromacs_data (demo_env demo_globs demo_files)
                     (demo_ligand_plots True) demo_state)))) = 9"
proof -
  have init: "fst (GromacsData_init (demo_env demo_globs demo_files) ''w'' demo_state)
      = Inr demo_gromacs"
    by (simp add: GromacsData_init_def create_folder_def monad_defs demo_defs
        CONTAINER_WORK_DIR_def)
  have runs: "length (filter is_container_run
      (trace (snd (generate_gromacs_data (demo_env demo_globs demo_files)
                     (demo_ligand_plots True) demo_state)))) = 9"
    by (simp add: gromacs_defs demo_ligand_plots_def demo_defs monad_defs is_container_run_def)
  from container_mapping_fixed [of "demo_env demo_globs demo_files" "''w''" demo_state
      demo_gromacs "demo_ligand_plots True"] init runs
  show ?thesis
    by (simp add: new_events_def demo_state_def demo_ligand_plots_def)
qed

subsection \<open>The tabular reader\<close>

lemma parse_values_Inr:
  "parse_values float vals = Inr vs \<Longrightarrow>
     vs = map (the \<circ> float) vals \<and> (\<forall>t\<in>set vals. float t \<noteq> None)"
  by (induction vals arbitrary: vs) (auto split: option.splits sum.splits)

lemma parse_values_Inl: "parse_values float vals = Inl e \<Longrightarrow> e = ValueError"
  by (induction vals) (auto split: option.splits sum.splits)

lemma parse_values_total:
  "\<forall>t\<in>set vals. float t \<noteq> None \<Longrightarrow> parse_values float vals = Inr (map (the \<circ> float) vals)"
  by (induction vals) auto

lemma read_rows_Inr:
  "read_rows float lines data = Inr rows \<Longrightarrow>
     rows = data @ map (\<lambda>line. map (the \<circ> float) (py_split line))
                       (filter (\<lambda>line. \<not> is_comment line) lines)
   \<and> (\<forall>line\<in>set lines. \<not> is_comment line \<longrightarrow> (\<forall>t\<in>set (py_split line). float t \<noteq> None))"
proof (induction lines arbitrary: data)
  case Nil
  then show ?case by simp
next
  case (Cons line lines)
  show ?case
  proof (cases "is_comment line")
    case True
    with Cons show ?thesis by simp
  next
    case False
    with Cons.prems obtain vs where
      v: "parse_values float (py_split line) = Inr vs"
      and r: "read_rows float lines (data @ [vs]) = Inr rows"
      by (auto split: sum.splits)
    from Cons.IH [OF r] parse_values_Inr [OF v] False show ?thesis by simp
  qed
qed

lemma read_rows_Inl: "read_rows float lines data = Inl e \<Longrightarrow> e = ValueError"
  by (induction lines arbitrary: data) (auto split: if_splits sum.splits dest: parse_values_Inl)

lemma read_rows_total:
  "\<forall>line\<in>set lines. \<not> is_comment line \<longrightarrow> (\<forall>t\<in>set (py_split line). float t \<noteq> None) \<Longrightarrow>
   read_rows float lines data =
     Inr (data @ map (\<lambda>line. map (the \<circ> float) (py_split line))
                     (filter (\<lambda>line. \<not> is_comment line) lines))"
  by (induction lines arbitrary: data) (auto simp: parse_values_total)

lemma read_rows_bad:
  assumes "line \<in> set lines" "\<not> is_comment line" "t \<in> set (py_split line)" "float t = None"
  shows "read_rows float lines data = Inl ValueError"
proof (cases "read_rows float lines data")
  case (Inl e)
  then show ?thesis by (simp add: read_rows_Inl)
next
  case (Inr rows)
  from read_rows_Inr [OF Inr] assms have False by blast
  then show ?thesis ..
qed

lemma read_rows_skip_comments:
  "read_rows float lines data = read_rows float (filter (\<lambda>line. \<not> is_comment line) lines) data"
  by (induction lines arbitrary: data) (auto split: sum.splits)

lemma is_comment_first_char:
  "is_comment line = (line \<noteq> [] \<and> (hd line = CHR ''#'' \<or> hd line = CHR ''@''))"
  by (cases line) (auto simp: is_comment_def startswith_def)

lemma split_when_all_tokens: "\<forall>w\<in>set (split_when P s). \<forall>c\<in>set w. \<not> P c"
  by (induction s) (auto split: list.splits)

lemma split_when_tokens: "w \<in> set (split_when P s) \<Longrightarrow> \<forall>c\<in>set w. \<not> P c"
  using split_when_all_tokens [of P s] by blast

lemma concat_filter_nonempty: "concat (filter (\<lambda>w. w \<noteq> []) ws) = concat ws"
  by (induction ws) auto

lemma split_when_concat: "concat (split_when P s) = filter (\<lambda>c. \<not> P c) s"
  by (induction s) (auto split: list.splits)

lemma py_split_tokens:
  "t \<in> set (py_split line) \<Longrightarrow> t \<noteq> [] \<and> (\<forall>c\<in>set t. \<not> py_isspace c)"
  by (auto simp: py_split_def dest: split_when_tokens)

lemma py_split_concat: "concat (py_split line) = filter (\<lambda>c. \<not> py_isspace c) line"
  unfolding py_split_def using split_when_concat [of py_isspace line]
  by (simp add: concat_filter_nonempty)

lemma np_array_Inr:
  "np_array data = Inr a \<Longrightarrow>
     nd_rows a = data
   \<and> ((data = [] \<and> nd_shape a = [0])
      \<or> (data \<noteq> [] \<and> nd_shape a = [length data, length (hd data)]
          \<and> list_all (\<lambda>r. length r = length (hd data)) data))"
  by (auto simp: np_array_def split: list.splits if_splits)

lemma np_array_ragged:
  "r \<in> set data \<Longrightarrow> length r \<noteq> length (hd data) \<Longrightarrow> np_array data = Inl ValueError"
  by (cases data) (auto simp: np_array_def list_all_iff)

lemma read_xvg_files_run:
  "read_xvg_files env file_path s =
     (case fs_readlines env file_path (world s) of
        Inl e \<Rightarrow> (Inl e, s)
      | Inr lines \<Rightarrow>
          (case read_rows (py_float env) lines [] of
             Inl e \<Rightarrow> (Inl e, s)
           | Inr data \<Rightarrow> (np_array data, s)))"
  by (simp add: read_xvg_files_def monad_defs split: sum.splits)

text \<open>
  Claim C6. When \<^verbatim>\<open>read_xvg_files\<close> returns, the rows of the array are the non-comment
  lines of the file, in their order and as many, each split at whitespace with every
  token converted by \<^verbatim>\<open>float\<close>. A line is a comment exactly when its first character is
  \<^verbatim>\<open>#\<close> or \<^verbatim>\<open>@\<close>, whatever follows, and the reader gives the same result with the
  comment lines removed. The tokens of a line are its maximal runs of characters that are
  not whitespace. A token that \<^verbatim>\<open>float\<close> rejects, on any non-comment line, makes the reader
  raise \<^verbatim>\<open>ValueError\<close>.
\<close>

theorem read_xvg_files_rows:
  "(fs_readlines env file_path (world s) = Inr lines
      \<and> read_xvg_files env file_path s = (Inr a, s') \<longrightarrow>
        nd_rows a = map (\<lambda>line. map (the \<circ> py_float env) (py_split line))
                        (filter (\<lambda>line. \<not> is_comment line) lines)
      \<and> length (nd_rows a) = length (filter (\<lambda>line. \<not> is_comment line) lines)
      \<and> hd (nd_shape a) = length (filter (\<lambda>line. \<not> is_comment line) lines)
      \<and> (\<forall>line\<in>set lines. \<not> is_comment line \<longrightarrow>
            (\<forall>t\<in>set (py_split line). py_float env t \<noteq> None)))
 \<and> is_comment line = (line \<noteq> [] \<and> (hd line = CHR ''#'' \<or> hd line = CHR ''@''))
 \<and> read_rows float lines data
     = read_rows float (filter (\<lambda>line. \<not> is_comment line) lines) data
 \<and> (\<forall>t\<in>set (py_split line). t \<noteq> [] \<and> (\<forall>c\<in>set t. \<not> py_isspace c))
 \<and> concat (py_split line) = filter (\<lambda>c. \<not> py_isspace c) line
 \<and> (fs_readlines env file_path (world s) = Inr lines
      \<and> line \<in> set lines \<and> \<not> is_comment line
      \<and> t \<in> set (py_split line) \<and> py_float env t = None \<longrightarrow>
        read_xvg_files env file_path s = (Inl ValueError, s))"
proof -
  have rows: "fs_readlines env file_path (world s) = Inr lines
      \<and> read_xvg_files env file_path s = (Inr a, s') \<longrightarrow>
        nd_rows a = map (\<lambda>line. map (the \<circ> py_float env) (py_split line))
                        (filter (\<lambda>line. \<not> is_comment line) lines)
      \<and> length (nd_rows a) = length (filter (\<lambda>line. \<not> is_comment line) lines)
      \<and> hd (nd_shape a) = length (filter (\<lambda>line. \<not> is_comment line) lines)
      \<and> (\<forall>line\<in>set lines. \<not> is_comment line \<longrightarrow>
            (\<forall>t\<in>set (py_split line). py_float env t \<noteq> None))"
  proof (intro impI, elim conjE)
    assume l: "fs_readlines env file_path (world s) = Inr lines"
      and r: "read_xvg_files env file_path s = (Inr a, s')"
    from l r obtain rows where
      rr: "read_rows (py_float env) lines [] = Inr rows" and np: "np_array rows = Inr a"
      by (auto simp: read_xvg_files_run split: sum.splits)
    from read_rows_Inr [OF rr] have
      rows: "rows = map (\<lambda>line. map (the \<circ> py_float env) (py_split line))
                        (filter (\<lambda>line. \<not> is_comment line) lines)"
      and num: "\<forall>line\<in>set lines. \<not> is_comment line \<longrightarrow>
            (\<forall>t\<in>set (py_split line). py_float env t \<noteq> None)"
      by simp_all
    from np_array_Inr [OF np] have a: "nd_rows a = rows" "hd (nd_shape a) = length rows"
      by auto
    from a num show "nd_rows a = map (\<lambda>line. map (the \<circ> py_float env) (py_split line))
                        (filter (\<lambda>line. \<not> is_comment line) lines)
      \<and> length (nd_rows a) = length (filter (\<lambda>line. \<not> is_comment line) lines)
      \<and> hd (nd_shape a) = length (filter (\<lambda>line. \<not> is_comment line) lines)
      \<and> (\<forall>line\<in>set lines. \<not> is_comment line \<longrightarrow>
            (\<forall>t\<in>set (py_split line). py_float env t \<noteq> None))"
      unfolding rows by simp
  qed
  have bad: "fs_readlines env file_path (world s) = Inr lines
      \<and> line \<in> set lines \<and> \<not> is_comment line
      \<and> t \<in> set (py_split line) \<and> py_float env t = None \<longrightarrow>
        read_xvg_files env file_path s = (Inl ValueError, s)"
    using read_rows_bad [of line lines t "py_float env" "[]"]
    by (auto simp: read_xvg_files_run)
  from rows bad is_comment_first_char [of line] read_rows_skip_comments [of float lines data]
    py_split_tokens [of _ line] py_split_concat [of line]
  show ?thesis by blast
qed


theorem read_xvg_files_rows_witness:
  "read_xvg_files (demo_env demo_globs demo_files) ''w/potential.xvg'' demo_state
     = (Inr (NdArray [2, 2] [[0, 1], [1000, 2]]), demo_state)
 \<and> length (filter (\<lambda>line. \<not> is_comment line) demo_xvg) = 2
 \<and> py_split (''1000 2'' @ [CHR 0x0A]) = [''1000'', ''2'']
 \<and> read_xvg_files (demo_env demo_globs (\<lambda>f. Some [''0 1'', ''1 n/a'']))
       ''w/potential.xvg'' demo_state
     = (Inl ValueError, demo_state)"
proof -
  have run: "read_xvg_files (demo_env demo_globs demo_files) ''w/potential.xvg'' demo_state
     = (Inr (NdArray [2, 2] [[0, 1], [1000, 2]]), demo_state)"
    by (simp add: demo_defs reader_defs monad_defs)
  have lines: "fs_readlines (demo_env demo_globs demo_files) ''w/potential.xvg'' (world demo_state)
     = Inr demo_xvg"
    by (simp add: demo_env_def demo_files_def)
  have bad: "fs_readlines (demo_env demo_globs (\<lambda>f. Some [''0 1'', ''1 n/a'']))
        ''w/potential.xvg'' (world demo_state) = Inr [''0 1'', ''1 n/a'']
      \<and> ''1 n/a'' \<in> set [''0 1'', ''1 n/a''] \<and> \<not> is_comment ''1 n/a''
      \<and> ''n/a'' \<in> set (py_split ''1 n/a'')
      \<and> py_float (demo_env demo_globs (\<lambda>f. Some [''0 1'', ''1 n/a''])) ''n/a'' = None"
    by (simp add: demo_env_def demo_float_def is_comment_def startswith_def py_split_def
        py_isspace_def)
  from read_xvg_files_rows [where env = "demo_env demo_globs demo_files"
      and file_path = "''w/potential.xvg''" and s = demo_state and lines = demo_xvg
      and a = "NdArray [2, 2] [[0, 1], [1000, 2]]" and s' = demo_state] run lines
  have 1: "length (nd_rows (NdArray [2, 2] [[0, 1], [1000, 2 :: rat]]))
      = length (filter (\<lambda>line. \<not> is_comment line) demo_xvg)"
    by blast
  from read_xvg_files_rows [where env = "demo_env demo_globs (\<lambda>f. Some [''0 1'', ''1 n/a''])"
      and file_path = "''w/potential.xvg''" and s = demo_state and lines = "[''0 1'', ''1 n/a'']"
      and line = "''1 n/a''" and t = "''n/a''"] bad
  have 2: "read_xvg_files (demo_env demo_globs (\<lambda>f. Some [''0 1'', ''1 n/a'']))
       ''w/potential.xvg'' demo_state = (Inl ValueError, demo_state)"
    by blast
  have 3: "py_split (''1000 2'' @ [CHR 0x0A]) = [''1000'', ''2'']"
    by (simp add: py_split_def py_isspace_def)
  from run 1 2 3 show ?thesis by simp
qed

text \<open>
  Claim C3, as amended. The loop of the reader checks no column count: it accumulates
  every data line whose tokens are numeric, whatever their number. The conversion
  \<^verbatim>\<open>np.array(data, dtype=float)\<close> that ends the reader raises \<^verbatim>\<open>ValueError\<close> when
  two rows differ in length, so an array that the reader returns is rectangular: empty,
  or \<open>N\<close> rows of one length \<open>M\<close> with shape \<open>(N, M)\<close>.
\<close>

theorem read_xvg_files_rectangular:
  "(read_xvg_files env file_path s = (Inr a, s') \<longrightarrow>
      (nd_rows a = [] \<and> nd_shape a = [0])
    \<or> (\<exists>m. nd_shape a = [length (nd_rows a), m] \<and> list_all (\<lambda>r. length r = m) (nd_rows a)))
 \<and> ((\<forall>line\<in>set lines. \<not> is_comment line \<longrightarrow>
         (\<forall>t\<in>set (py_split line). py_float env t \<noteq> None)) \<longrightarrow>
      read_rows (py_float env) lines []
        = Inr (map (\<lambda>line. map (the \<circ> py_float env) (py_split line))
                   (filter (\<lambda>line. \<not> is_comment line) lines)))
 \<and> (fs_readlines env file_path (world s) = Inr lines
      \<and> read_rows (py_float env) lines [] = Inr data
      \<and> r \<in> set data \<and> length r \<noteq> length (hd data) \<longrightarrow>
        read_xvg_files env file_path s = (Inl ValueError, s))"
proof -
  have rect: "read_xvg_files env file_path s = (Inr a, s') \<longrightarrow>
      (nd_rows a = [] \<and> nd_shape a = [0])
    \<or> (\<exists>m. nd_shape a = [length (nd_rows a), m] \<and> list_all (\<lambda>r. length r = m) (nd_rows a))"
  proof
    assume "read_xvg_files env file_path s = (Inr a, s')"
    then obtain rows where "np_array rows = Inr a"
      by (auto simp: read_xvg_files_run split: sum.splits)
    from np_array_Inr [OF this]
    show "(nd_rows a = [] \<and> nd_shape a = [0])
      \<or> (\<exists>m. nd_shape a = [length (nd_rows a), m] \<and> list_all (\<lambda>r. length r = m) (nd_rows a))"
      by auto
  qed
  have loop: "(\<forall>line\<in>set lines. \<not> is_comment line \<longrightarrow>
         (\<forall>t\<in>set (py_split line). py_float env t \<noteq> None)) \<longrightarrow>
      read_rows (py_float env) lines []
        = Inr (map (\<lambda>line. map (the \<circ> py_float env) (py_split line))
                   (filter (\<lambda>line. \<not> is_comment line) lines))"
    using read_rows_total [of lines "py_float env" "[]"] by simp
  have ragged: "fs_readlines env file_path (world s) = Inr lines
      \<and> read_rows (py_float env) lines [] = Inr data
      \<and> r \<in> set data \<and> length r \<noteq> length (hd data) \<longrightarrow>
        read_xvg_files env file_path s = (Inl ValueError, s)"
    using np_array_ragged [of r data] by (auto simp: read_xvg_files_run)
  from rect loop ragged show ?thesis by (intro conjI)
qed

theorem read_xvg_files_rectangular_witness:
  "read_xvg_files (demo_env demo_globs demo_files) ''w/potential.xvg'' demo_state
     = (Inr (NdArray [2, 2] [[0, 1], [1000, 2]]), demo_state)
 \<and> read_rows demo_float demo_ragged [] = Inr [[0, 1], [2]]
 \<and> read_xvg_files (demo_env demo_globs (\<lambda>f. Some demo_ragged)) ''w/potential.xvg'' demo_state
     = (Inl ValueError, demo_state)"
proof -
  have run: "read_xvg_files (demo_env demo_globs demo_files) ''w/potential.xvg'' demo_state
     = (Inr (NdArray [2, 2] [[0, 1], [1000, 2]]), demo_state)"
    by (simp add: demo_defs reader_defs monad_defs)
  have num: "\<forall>line\<in>set demo_ragged. \<not> is_comment line \<longrightarrow>
         (\<forall>t\<in>set (py_split line).
            py_float (demo_env demo_globs (\<lambda>f. Some demo_ragged)) t \<noteq> None)"
    by (simp add: demo_ragged_def demo_env_def demo_float_def is_comment_def startswith_def
        py_split_def py_isspace_def)
  have rows: "map (\<lambda>line. map (the \<circ> demo_float) (py_split line))
                (filter (\<lambda>line. \<not> is_comment line) demo_ragged) = [[0, 1], [2]]"
    by (simp add: demo_ragged_def demo_float_def is_comment_def startswith_def
        py_split_def py_isspace_def)
  have env: "py_float (demo_env demo_globs (\<lambda>f. Some demo_ragged)) = demo_float"
    "fs_readlines (demo_env demo_globs (\<lambda>f. Some demo_ragged)) ''w/potential.xvg''
       (world demo_state) = Inr demo_ragged"
    by (simp_all add: demo_env_def)
  note inst = read_xvg_files_rectangular [where env = "demo_env demo_globs (\<lambda>f. Some demo_ragged)"
      and file_path = "''w/potential.xvg''" and s = demo_state and lines = demo_ragged
      and data = "[[0, 1], [2]]" and r = "[2]"]
  from inst num rows env have loop: "read_rows demo_float demo_ragged [] = Inr [[0, 1], [2]]"
    by simp
  with inst env have "read_xvg_files (demo_env demo_globs (\<lambda>f. Some demo_ragged))
       ''w/potential.xvg'' demo_state = (Inl ValueError, demo_state)"
    by simp
  with run loop show ?thesis by simp
qed

text \<open>
  Claim C3 as stated fails: a table whose data lines are \<^verbatim>\<open>0 1\<close> and \<^verbatim>\<open>2\<close> has only
  numeric tokens and rows of length two and one, and the reader raises \<^verbatim>\<open>ValueError\<close>
  instead of returning a ragged structure.
\<close>

theorem read_xvg_files_ragged_counterexample:
  "map py_split (filter (\<lambda>line. \<not> is_comment line) demo_ragged) = [[''0'', ''1''], [''2'']]
 \<and> map (map demo_float) [[''0'', ''1''], [''2'']] = [[Some 0, Some 1], [Some 2]]
 \<and> read_xvg_files (demo_env demo_globs (\<lambda>f. Some demo_ragged)) ''w/potential.xvg'' demo_state
     = (Inl ValueError, demo_state)"
  by (simp add: demo_ragged_def demo_env_def demo_float_def demo_state_def reader_defs monad_defs)

subsection \<open>The latest configuration\<close>

lemma find_last_frame_examples:
  "find_last_frame [''Last frame 1500.0''] = Some ''1500.0''"
  "find_last_frame demo_report = Some ''1500''"
  "find_last_frame [''frames: 12'', ''Last frame'' @ [CHR 0x09] @ '' 7.5.3 x''] = Some ''7.5''"
  "find_last_frame [''Last frame x'', ''Last frame 12.''] = Some ''12''"
  by (simp_all add: demo_report_def match_last_frame_def match_fraction_def startswith_def
      py_isspace_def py_isdigit_def)

text \<open>
  Claim C1 at a report without the marker: the search gives \<open>None\<close>, and
  \<^verbatim>\<open>get_latest_configuration\<close> goes on, sends the dump command with the text \<^verbatim>\<open>None\<close> as
  its \<^verbatim>\<open>-dump\<close> argument and returns. Nothing in the operation tests \<^verbatim>\<open>last_frame\<close>.
\<close>

theorem get_latest_configuration_without_marker:
  "find_last_frame demo_no_marker = None
 \<and> get_latest_configuration (demo_env demo_globs (\<lambda>f. Some demo_no_marker))
      demo_gromacs demo_state
   = (Inr (),
      \<lparr>world = (),
       trace =
         [ContainersRun (container_call demo_gromacs
            ''gmx check -f fixed.xtc > trajectory_info.txt 2>&1'' None),
          ContainersRun (container_call demo_gromacs
            (dump_command ''md_0_2.tpr'' ''last_configuration.pdb'' ''None'') None)]\<rparr>)"
  by (simp add: get_latest_configuration_def run_gromacs_container_def find_last_tpr_file_def
      find_files_with_same_pattern_def sorted_paths_def parts_normcase_def split_sep_def
      path_name_def py_last_def Let_def demo_no_marker_def demo_env_def demo_globs_def
      demo_gromacs_def demo_state_def monad_defs match_last_frame_def startswith_def
      format_last_frame_def container_call_def sh_def CONTAINER_WORK_DIR_def)

end
